theory Spec2Isabelle
  imports Complex_Main
begin

section \<open>Values shared by the two players\<close>

text \<open>
  The repository holds two browser-side classes: \<open>ZLMWebRTCPlayer\<close>
  (\<open>player/zlm-webrtc-player.js\<close>, the real-time session) and \<open>ZLMStreamPlayer\<close>
  (the progressive HTTP-FLV/MPEG-TS session). Both are event driven: every callback the
  browser runs is one synchronous task, and an \<open>async\<close> method is suspended at each
  \<open>await\<close> until the awaited promise settles. The model follows that shape. Each task
  is a function from the world to the world; a suspended call is a continuation stored in
  the world; the browser is a list of events.

  The world holds the fields of \<open>this\<close>, the part of the DOM the methods write, and the
  resources the methods allocate in the browser: open peer connections or players, interval
  timers, pending timeouts. Identifiers of these resources are natural numbers taken from
  one counter. \<open>setInterval\<close> never returns a falsy handle, so the truthiness test
  \<open>if (this.statsInterval)\<close> is the test against \<open>null\<close>.

  The \<open>_log\<close> method writes to the console and to the optional log container only; no
  method reads either, and the model leaves them out.
\<close>

subsection \<open>JSON values and the JavaScript operators used on them\<close>

text \<open>
  A parsed response body. Numbers are rationals; \<open>-0\<close> and \<open>0\<close> are the same number, as
  they are for \<open>!==\<close>. An object is its list of own properties.
\<close>

datatype json =
    JNull
  | JBool bool
  | JNum rat
  | JStr string
  | JArr "json list"
  | JObj "(string \<times> json) list"

text \<open>A property read yields \<open>undefined\<close> (here \<open>None\<close>) when the property is absent.\<close>

fun get_prop :: "json \<Rightarrow> string \<Rightarrow> json option" where
  "get_prop (JObj kvs) k = map_of kvs k"
| "get_prop _ k = None"

fun truthy :: "json option \<Rightarrow> bool" where
  "truthy None = False"
| "truthy (Some JNull) = False"
| "truthy (Some (JBool b)) = b"
| "truthy (Some (JNum x)) = (x \<noteq> 0)"
| "truthy (Some (JStr s)) = (s \<noteq> [])"
| "truthy (Some (JArr xs)) = True"
| "truthy (Some (JObj kvs)) = True"

text \<open>\<open>a || b\<close>.\<close>

definition js_or :: "json option \<Rightarrow> json option \<Rightarrow> json option" where
  "js_or a b = (if truthy a then a else b)"

text \<open>\<open>v?.name\<close>: \<open>undefined\<close> when \<open>v\<close> is \<open>undefined\<close> or \<open>null\<close>.\<close>

fun get_opt_prop :: "json option \<Rightarrow> string \<Rightarrow> json option" where
  "get_opt_prop None k = None"
| "get_opt_prop (Some JNull) k = None"
| "get_opt_prop (Some v) k = get_prop v k"

subsection \<open>Errors and callbacks\<close>

text \<open>
  An \<open>Error\<close> object is represented by the place that throws it and the values its
  message template is filled with. \<open>TypeError\<close> is a property read on \<open>null\<close>;
  \<open>Rejected\<close> is a rejection that comes from the browser or the library.
  \<open>error_type\<close> are the error classes of \<open>mpegts.ErrorTypes\<close>.
\<close>

datatype error_type = NETWORK_ERROR | MEDIA_ERROR | OTHER_ERROR

datatype error =
    StreamUrlRequired
  | ServerReturned nat string
  | ZLMediaKitError json
  | NoSdpAnswer
  | PlayerError error_type string
  | TypeError
  | Rejected string

record stats_report =
  report_type :: string
  report_kind :: string
  packetsReceived :: nat
  packetsLost :: nat
  bytesReceived :: nat
  framesDecoded :: nat
  framesPerSecond :: "rat option"
  jitter :: rat
  timestamp :: rat

record rt_sample =
  s_packetsReceived :: nat
  s_packetsLost :: nat
  s_bytesReceived :: nat
  s_framesDecoded :: nat
  s_frameRate :: rat
  s_jitter :: rat
  s_timestamp :: rat

record pg_sample =
  currentSpeed :: nat
  decodedFrames :: nat
  droppedFrames :: nat
  totalBytes :: nat
  estimatedLatency :: nat

datatype callback =
    OnConnected
  | OnDisconnected
  | OnError error
  | OnStatsRt rt_sample
  | OnStatsPg pg_sample

text \<open>The stats container: its \<open>innerHTML\<close> is empty or the last rendered sample.\<close>

datatype 'a display = Blank | Rendered 'a

section \<open>The real-time session: \<open>ZLMWebRTCPlayer\<close>\<close>

subsection \<open>State\<close>

datatype ice_connection_state =
  IceNew | IceChecking | IceConnected | IceCompleted | IceFailed | IceDisconnected | IceClosed

datatype ice_gathering_state = GatherNew | Gathering | GatherComplete

text \<open>
  An open \<open>RTCPeerConnection\<close>. \<open>gatherListeners\<close> are the \<open>checkState\<close> closures
  registered for \<open>icegatheringstatechange\<close>, each named by the \<open>play\<close> call that owns it.
\<close>

record peer_connection =
  iceConnectionState :: ice_connection_state
  iceGatheringState :: ice_gathering_state
  localDescription :: "string option"
  gatherListeners :: "nat list"

record response =
  ok :: bool
  status :: nat
  statusText :: string
  json_body :: "error + json"

record request =
  req_method :: string
  req_url :: string
  req_headers :: "(string \<times> string) list"
  req_body :: string

text \<open>Where a \<open>play\<close> call is suspended: one constructor for each \<open>await\<close>.\<close>

datatype rt_cont =
    AwaitCreateOffer string
  | AwaitSetLocal string nat string
  | AwaitIceGathering string
  | AwaitFetch
  | AwaitJson response
  | AwaitSetRemote nat json

text \<open>
  \<open>conns\<close> holds the open connections only: \<open>close()\<close> removes the entry, and a closed
  connection dispatches no event. \<open>timeouts\<close> are the pending \<open>setTimeout\<close> timers of
  \<open>_waitForIceGathering\<close>: identifier, due time in milliseconds, owning call.
  \<open>results\<close> are the settled \<open>play\<close> promises. \<open>callbacks\<close>, \<open>requests\<close> and
  \<open>remote_applied\<close> record the calls of the user callbacks, of \<open>fetch\<close> and of
  \<open>setRemoteDescription\<close>, in order.
\<close>

record rt =
  peerConnection :: "nat option"
  statsInterval :: "nat option"
  stream :: "nat option"
  srcObject :: "nat option"
  statsContainer :: "rt_sample display option"
  location_origin :: string
  conns :: "nat \<rightharpoonup> peer_connection"
  intervals :: "nat set"
  timeouts :: "(nat \<times> nat \<times> nat) list"
  pending_stats :: nat
  now :: nat
  fresh :: nat
  calls :: "nat \<rightharpoonup> rt_cont"
  results :: "nat \<rightharpoonup> error + bool"
  callbacks :: "callback list"
  requests :: "request list"
  remote_applied :: "(nat \<times> json) list"

text \<open>
  The constructor, for a video element with no source attached. \<open>sc\<close> says whether a
  stats container was supplied; \<open>origin\<close> is \<open>window.location.origin\<close>.
\<close>

definition rt_init :: "bool \<Rightarrow> string \<Rightarrow> rt" where
  "rt_init sc origin =
     \<lparr> peerConnection = None, statsInterval = None, stream = None, srcObject = None,
       statsContainer = (if sc then Some Blank else None), location_origin = origin,
       conns = Map.empty, intervals = {}, timeouts = [], pending_stats = 0, now = 0,
       fresh = 0, calls = Map.empty, results = Map.empty, callbacks = [], requests = [],
       remote_applied = [] \<rparr>"

definition current_conn :: "rt \<Rightarrow> peer_connection option" where
  "current_conn w = (case peerConnection w of None \<Rightarrow> None | Some h \<Rightarrow> conns w h)"

subsection \<open>\<open>stop\<close> (lines 139-164)\<close>

definition rt_stop :: "rt \<Rightarrow> rt" where
  "rt_stop w =
     (let w1 = (case statsInterval w of
                  None \<Rightarrow> w
                | Some t \<Rightarrow> w\<lparr>intervals := intervals w - {t}, statsInterval := None\<rparr>);
          w2 = (case peerConnection w1 of
                  None \<Rightarrow> w1
                | Some h \<Rightarrow> w1\<lparr>conns := (conns w1)(h := None), peerConnection := None\<rparr>);
          w3 = (case srcObject w2 of
                  None \<Rightarrow> w2
                | Some s \<Rightarrow> w2\<lparr>srcObject := None\<rparr>);
          w4 = w3\<lparr>stream := None\<rparr>
      in case statsContainer w4 of
           None \<Rightarrow> w4
         | Some d \<Rightarrow> w4\<lparr>statsContainer := Some Blank\<rparr>)"

subsection \<open>\<open>_startStatsMonitoring\<close> (lines 260-297)\<close>

definition rt_startStatsMonitoring :: "rt \<Rightarrow> rt" where
  "rt_startStatsMonitoring w =
     (case statsInterval w of
        Some t \<Rightarrow> w
      | None \<Rightarrow> w\<lparr>intervals := insert (fresh w) (intervals w),
                  statsInterval := Some (fresh w), fresh := Suc (fresh w)\<rparr>)"

text \<open>The interval callback up to its \<open>await\<close>, and the rest once \<open>getStats\<close> settled.\<close>

definition rt_tick :: "rt \<Rightarrow> rt" where
  "rt_tick w =
     (case peerConnection w of
        None \<Rightarrow> w
      | Some h \<Rightarrow> w\<lparr>pending_stats := Suc (pending_stats w)\<rparr>)"

definition rt_sample_of :: "stats_report \<Rightarrow> rt_sample" where
  "rt_sample_of r =
     \<lparr> s_packetsReceived = packetsReceived r, s_packetsLost = packetsLost r,
       s_bytesReceived = bytesReceived r, s_framesDecoded = framesDecoded r,
       s_frameRate = (case framesPerSecond r of None \<Rightarrow> 0 | Some x \<Rightarrow> x),
       s_jitter = jitter r, s_timestamp = timestamp r \<rparr>"

definition rt_report :: "stats_report \<Rightarrow> rt \<Rightarrow> rt" where
  "rt_report r w =
     (if report_type r = ''inbound-rtp'' \<and> report_kind r = ''video''
      then (case statsContainer w of
              None \<Rightarrow> w
            | Some d \<Rightarrow> w\<lparr>statsContainer := Some (Rendered (rt_sample_of r))\<rparr>)
           \<lparr>callbacks := callbacks w @ [OnStatsRt (rt_sample_of r)]\<rparr>
      else w)"

definition rt_stats_settled :: "stats_report list \<Rightarrow> rt \<Rightarrow> rt" where
  "rt_stats_settled rs w =
     (if pending_stats w = 0 then w
      else fold rt_report rs (w\<lparr>pending_stats := pending_stats w - 1\<rparr>))"

subsection \<open>\<open>play\<close> (lines 68-134) and \<open>_connectToZLM\<close> (lines 171-222)\<close>

text \<open>The \<open>catch\<close> block of \<open>play\<close>: \<open>onError\<close>, \<open>stop\<close>, and the promise rejects.\<close>

definition rt_fail :: "nat \<Rightarrow> error \<Rightarrow> rt \<Rightarrow> rt" where
  "rt_fail c e w =
     (rt_stop (w\<lparr>callbacks := callbacks w @ [OnError e]\<rparr>))
       \<lparr>calls := (calls w)(c := None), results := (results w)(c \<mapsto> Inl e)\<rparr>"

definition new_connection :: peer_connection where
  "new_connection =
     \<lparr> iceConnectionState = IceNew, iceGatheringState = GatherNew,
       localDescription = None, gatherListeners = [] \<rparr>"

text \<open>
  The synchronous part of \<open>play\<close>, up to \<open>await createOffer\<close>. The call is named by a
  fresh identifier. \<open>ctor\<close> is what the \<open>RTCPeerConnection\<close> constructor throws, if it
  throws. An empty \<open>url\<close> rejects before \<open>stop\<close> and outside the \<open>try\<close> block.
\<close>

definition rt_play :: "string \<Rightarrow> error option \<Rightarrow> rt \<Rightarrow> rt" where
  "rt_play url ctor w =
     (let c = fresh w; w0 = w\<lparr>fresh := Suc c\<rparr> in
      if url = [] then w0\<lparr>results := (results w0)(c \<mapsto> Inl StreamUrlRequired)\<rparr>
      else
        let w1 = rt_stop w0 in
        case ctor of
          Some e \<Rightarrow> rt_fail c e w1
        | None \<Rightarrow>
            let h = fresh w1 in
            w1\<lparr>fresh := Suc h, peerConnection := Some h,
               conns := (conns w1)(h \<mapsto> new_connection),
               calls := (calls w1)(c \<mapsto> AwaitCreateOffer url)\<rparr>)"

text \<open>\<open>createOffer\<close> settled (line 114); \<open>setLocalDescription\<close> is called (line 120).\<close>

definition rt_offer_settled :: "nat \<Rightarrow> error + string \<Rightarrow> rt \<Rightarrow> rt" where
  "rt_offer_settled c outcome w =
     (case calls w c of
        Some (AwaitCreateOffer url) \<Rightarrow>
          (case outcome of
             Inl e \<Rightarrow> rt_fail c e w
           | Inr sdp \<Rightarrow>
               (case peerConnection w of
                  None \<Rightarrow> rt_fail c TypeError w
                | Some h \<Rightarrow> w\<lparr>calls := (calls w)(c \<mapsto> AwaitSetLocal url h sdp)\<rparr>))
      | _ \<Rightarrow> w)"

text \<open>The headers of the signaling request (lines 185-194).\<close>

definition signaling_request :: "rt \<Rightarrow> string \<Rightarrow> string \<Rightarrow> request" where
  "signaling_request w url offerSdp =
     \<lparr> req_method = ''POST'', req_url = url,
       req_headers =
         [(''Content-Type'', ''text/plain;charset=UTF-8''),
          (''Origin'', if location_origin w \<noteq> [] then location_origin w
                       else ''https://webrtc-client.local''),
          (''Accept'', ''application/json, text/plain, */*''),
          (''User-Agent'', ''Mozilla/5.0 (compatible; WebRTCPlayer)'')],
       req_body = offerSdp \<rparr>"

text \<open>
  \<open>_connectToZLM\<close> after the ICE wait (lines 178-194): read the local description of
  \<open>this.peerConnection\<close> and call \<open>fetch\<close>.
\<close>

definition rt_send_offer :: "nat \<Rightarrow> string \<Rightarrow> rt \<Rightarrow> rt" where
  "rt_send_offer c url w =
     (case current_conn w of
        None \<Rightarrow> rt_fail c TypeError w
      | Some cn \<Rightarrow>
          (case localDescription cn of
             None \<Rightarrow> rt_fail c TypeError w
           | Some sdp \<Rightarrow>
               w\<lparr>requests := requests w @ [signaling_request w url sdp],
                 calls := (calls w)(c \<mapsto> AwaitFetch)\<rparr>))"

subsection \<open>\<open>_waitForIceGathering\<close> (lines 229-254)\<close>

text \<open>
  \<open>resolve()\<close> of the wait's promise. The continuation of \<open>_connectToZLM\<close> runs as a
  microtask, before any other task; a second \<open>resolve()\<close> does nothing.
\<close>

definition rt_resolve_ice :: "nat \<Rightarrow> rt \<Rightarrow> rt" where
  "rt_resolve_ice c w =
     (case calls w c of
        Some (AwaitIceGathering url) \<Rightarrow> rt_send_offer c url w
      | _ \<Rightarrow> w)"

text \<open>
  \<open>this.peerConnection.removeEventListener('icegatheringstatechange', checkState)\<close>,
  reached only where \<open>this.peerConnection\<close> has just been read.
\<close>

definition remove_listener :: "nat \<Rightarrow> rt \<Rightarrow> rt" where
  "remove_listener c w =
     (case peerConnection w of
        None \<Rightarrow> w
      | Some h \<Rightarrow>
          (case conns w h of
             None \<Rightarrow> w
           | Some cn \<Rightarrow>
               w\<lparr>conns := (conns w)(h \<mapsto> cn\<lparr>gatherListeners := removeAll c (gatherListeners cn)\<rparr>)\<rparr>))"

text \<open>
  The closure \<open>checkState\<close> of call \<open>c\<close> (lines 236-241) and the timeout callback
  (lines 246-252). Both read \<open>this.peerConnection\<close>, whatever it is when they run; on
  \<open>null\<close> the read throws and the callback ends there.
\<close>

definition rt_checkState :: "nat \<Rightarrow> rt \<Rightarrow> rt" where
  "rt_checkState c w =
     (case current_conn w of
        None \<Rightarrow> w
      | Some cn \<Rightarrow>
          if iceGatheringState cn = GatherComplete
          then rt_resolve_ice c (remove_listener c w)
          else w)"

definition rt_ice_timeout :: "nat \<Rightarrow> rt \<Rightarrow> rt" where
  "rt_ice_timeout c w =
     (case current_conn w of
        None \<Rightarrow> w
      | Some cn \<Rightarrow>
          if iceGatheringState cn \<noteq> GatherComplete
          then rt_resolve_ice c (remove_listener c w)
          else w)"

definition add_listener :: "nat \<Rightarrow> rt \<Rightarrow> rt" where
  "add_listener c w =
     (case peerConnection w of
        None \<Rightarrow> w
      | Some h \<Rightarrow>
          (case conns w h of
             None \<Rightarrow> w
           | Some cn \<Rightarrow>
               w\<lparr>conns := (conns w)(h \<mapsto> cn\<lparr>gatherListeners := gatherListeners cn @ [c]\<rparr>)\<rparr>))"

text \<open>
  The promise executor, run by \<open>_connectToZLM\<close> (line 176). A throw inside the executor
  rejects the promise, and \<open>play\<close> catches it.
\<close>

definition rt_waitForIceGathering :: "nat \<Rightarrow> string \<Rightarrow> rt \<Rightarrow> rt" where
  "rt_waitForIceGathering c url w =
     (case current_conn w of
        None \<Rightarrow> rt_fail c TypeError w
      | Some cn \<Rightarrow>
          if iceGatheringState cn = GatherComplete then rt_send_offer c url w
          else (add_listener c w)
                 \<lparr>timeouts := timeouts w @ [(fresh w, now w + 5000, c)],
                  fresh := Suc (fresh w),
                  calls := (calls w)(c \<mapsto> AwaitIceGathering url)\<rparr>)"

text \<open>\<open>setLocalDescription\<close> settled (line 120); \<open>_connectToZLM\<close> starts (line 124).\<close>

definition set_local :: "nat \<Rightarrow> string \<Rightarrow> rt \<Rightarrow> rt" where
  "set_local h sdp w =
     (case conns w h of
        None \<Rightarrow> w
      | Some cn \<Rightarrow> w\<lparr>conns := (conns w)(h \<mapsto> cn\<lparr>localDescription := Some sdp\<rparr>)\<rparr>)"

definition rt_local_settled :: "nat \<Rightarrow> error option \<Rightarrow> rt \<Rightarrow> rt" where
  "rt_local_settled c outcome w =
     (case calls w c of
        Some (AwaitSetLocal url h sdp) \<Rightarrow>
          (case outcome of
             Some e \<Rightarrow> rt_fail c e w
           | None \<Rightarrow> rt_waitForIceGathering c url (set_local h sdp w))
      | _ \<Rightarrow> w)"

subsection \<open>The signaling response (lines 196-217)\<close>

text \<open>\<open>result.msg || 'Unknown error'\<close>, the value the error message is built from.\<close>

definition msg_or_default :: "json \<Rightarrow> json" where
  "msg_or_default result =
     (case get_prop result ''msg'' of
        None \<Rightarrow> JStr ''Unknown error''
      | Some v \<Rightarrow> if truthy (Some v) then v else JStr ''Unknown error'')"

text \<open>\<open>result.sdp || result.answer || result.data?.sdp\<close>.\<close>

definition answer_of :: "json \<Rightarrow> json option" where
  "answer_of result =
     js_or (js_or (get_prop result ''sdp'') (get_prop result ''answer''))
           (get_opt_prop (get_prop result ''data'') ''sdp'')"

text \<open>
  Lines 203-210, on the parsed body. Reading \<open>result.code\<close> of \<open>null\<close> throws; every
  other value without a \<open>code\<close> property reads \<open>undefined\<close>.
\<close>

definition rt_check_result :: "json \<Rightarrow> error + json" where
  "rt_check_result result =
     (case result of
        JNull \<Rightarrow> Inl TypeError
      | _ \<Rightarrow>
          if get_prop result ''code'' \<noteq> Some (JNum 0)
          then Inl (ZLMediaKitError (msg_or_default result))
          else (case answer_of result of
                  None \<Rightarrow> Inl NoSdpAnswer
                | Some a \<Rightarrow> if truthy (Some a) then Inr a else Inl NoSdpAnswer))"

definition rt_fetch_settled :: "nat \<Rightarrow> error + response \<Rightarrow> rt \<Rightarrow> rt" where
  "rt_fetch_settled c outcome w =
     (case calls w c of
        Some AwaitFetch \<Rightarrow>
          (case outcome of
             Inl e \<Rightarrow> rt_fail c e w
           | Inr r \<Rightarrow>
               if \<not> ok r then rt_fail c (ServerReturned (status r) (statusText r)) w
               else w\<lparr>calls := (calls w)(c \<mapsto> AwaitJson r)\<rparr>)
      | _ \<Rightarrow> w)"

definition rt_json_settled :: "nat \<Rightarrow> rt \<Rightarrow> rt" where
  "rt_json_settled c w =
     (case calls w c of
        Some (AwaitJson r) \<Rightarrow>
          (case json_body r of
             Inl e \<Rightarrow> rt_fail c e w
           | Inr result \<Rightarrow>
               (case rt_check_result result of
                  Inl e \<Rightarrow> rt_fail c e w
                | Inr answerSdp \<Rightarrow>
                    (case peerConnection w of
                       None \<Rightarrow> rt_fail c TypeError w
                     | Some h \<Rightarrow>
                         w\<lparr>remote_applied := remote_applied w @ [(h, answerSdp)],
                           calls := (calls w)(c \<mapsto> AwaitSetRemote h answerSdp)\<rparr>)))
      | _ \<Rightarrow> w)"

definition rt_remote_settled :: "nat \<Rightarrow> error option \<Rightarrow> rt \<Rightarrow> rt" where
  "rt_remote_settled c outcome w =
     (case calls w c of
        Some (AwaitSetRemote h answerSdp) \<Rightarrow>
          (case outcome of
             Some e \<Rightarrow> rt_fail c e w
           | None \<Rightarrow> w\<lparr>calls := (calls w)(c := None), results := (results w)(c \<mapsto> Inr True)\<rparr>)
      | _ \<Rightarrow> w)"

subsection \<open>Events of the peer connection and of the timers\<close>

text \<open>The handler \<open>oniceconnectionstatechange\<close> (lines 83-91).\<close>

definition rt_oniceconnectionstatechange :: "rt \<Rightarrow> rt" where
  "rt_oniceconnectionstatechange w =
     (case current_conn w of
        None \<Rightarrow> w
      | Some cn \<Rightarrow>
          if iceConnectionState cn = IceConnected
          then (rt_startStatsMonitoring w)\<lparr>callbacks := callbacks w @ [OnConnected]\<rparr>
          else if iceConnectionState cn \<in> {IceDisconnected, IceFailed, IceClosed}
          then w\<lparr>callbacks := callbacks w @ [OnDisconnected]\<rparr>
          else w)"

definition rt_connection_change :: "nat \<Rightarrow> ice_connection_state \<Rightarrow> rt \<Rightarrow> rt" where
  "rt_connection_change h st w =
     (case conns w h of
        None \<Rightarrow> w
      | Some cn \<Rightarrow>
          rt_oniceconnectionstatechange
            (w\<lparr>conns := (conns w)(h \<mapsto> cn\<lparr>iceConnectionState := st\<rparr>)\<rparr>))"

text \<open>
  \<open>icegatheringstatechange\<close> on connection \<open>h\<close>: the listeners run in the order of their
  registration, each followed by its microtasks.
\<close>

definition rt_gathering_change :: "nat \<Rightarrow> ice_gathering_state \<Rightarrow> rt \<Rightarrow> rt" where
  "rt_gathering_change h st w =
     (case conns w h of
        None \<Rightarrow> w
      | Some cn \<Rightarrow>
          fold rt_checkState (gatherListeners cn)
            (w\<lparr>conns := (conns w)(h \<mapsto> cn\<lparr>iceGatheringState := st\<rparr>)\<rparr>))"

text \<open>
  \<open>icecandidate\<close>: the browser has added a candidate to the local description; the
  handler (lines 97-101) only logs.
\<close>

definition rt_candidate :: "nat \<Rightarrow> string \<Rightarrow> rt \<Rightarrow> rt" where
  "rt_candidate h sdp w =
     (case conns w h of
        None \<Rightarrow> w
      | Some cn \<Rightarrow>
          (case localDescription cn of
             None \<Rightarrow> w
           | Some old \<Rightarrow> w\<lparr>conns := (conns w)(h \<mapsto> cn\<lparr>localDescription := Some sdp\<rparr>)\<rparr>))"

text \<open>The handler \<open>ontrack\<close> (lines 103-107).\<close>

definition rt_track :: "nat \<Rightarrow> nat \<Rightarrow> rt \<Rightarrow> rt" where
  "rt_track h s w =
     (case conns w h of
        None \<Rightarrow> w
      | Some cn \<Rightarrow> w\<lparr>srcObject := Some s, stream := Some s\<rparr>)"

text \<open>A pending timeout runs once, and not before it is due.\<close>

definition rt_fire :: "nat \<Rightarrow> rt \<Rightarrow> rt" where
  "rt_fire t w =
     (case find (\<lambda>(i, due, c). i = t) (timeouts w) of
        None \<Rightarrow> w
      | Some (i, due, c) \<Rightarrow>
          if due \<le> now w
          then rt_ice_timeout c (w\<lparr>timeouts := filter (\<lambda>(i, due, c). i \<noteq> t) (timeouts w)\<rparr>)
          else w)"

datatype rt_event =
    RtPlay string "error option"
  | RtStop
  | RtOfferSettled nat "error + string"
  | RtLocalSettled nat "error option"
  | RtFetchSettled nat "error + response"
  | RtJsonSettled nat
  | RtRemoteSettled nat "error option"
  | RtGatheringChange nat ice_gathering_state
  | RtConnectionChange nat ice_connection_state
  | RtCandidate nat string
  | RtTrack nat nat
  | RtAdvance nat
  | RtFire nat
  | RtTick nat
  | RtStatsSettled "stats_report list"

fun rt_step :: "rt_event \<Rightarrow> rt \<Rightarrow> rt" where
  "rt_step (RtPlay url ctor) w = rt_play url ctor w"
| "rt_step RtStop w = rt_stop w"
| "rt_step (RtOfferSettled c outcome) w = rt_offer_settled c outcome w"
| "rt_step (RtLocalSettled c outcome) w = rt_local_settled c outcome w"
| "rt_step (RtFetchSettled c outcome) w = rt_fetch_settled c outcome w"
| "rt_step (RtJsonSettled c) w = rt_json_settled c w"
| "rt_step (RtRemoteSettled c outcome) w = rt_remote_settled c outcome w"
| "rt_step (RtGatheringChange h st) w = rt_gathering_change h st w"
| "rt_step (RtConnectionChange h st) w = rt_connection_change h st w"
| "rt_step (RtCandidate h sdp) w = rt_candidate h sdp w"
| "rt_step (RtTrack h s) w = rt_track h s w"
| "rt_step (RtAdvance dt) w = w\<lparr>now := now w + dt\<rparr>"
| "rt_step (RtFire t) w = rt_fire t w"
| "rt_step (RtTick t) w = (if t \<in> intervals w then rt_tick w else w)"
| "rt_step (RtStatsSettled rs) w = rt_stats_settled rs w"

definition rt_run :: "rt_event list \<Rightarrow> rt \<Rightarrow> rt" where
  "rt_run evs w = fold rt_step evs w"

text \<open>
  What every task keeps: the open connections are exactly the one \<open>this.peerConnection\<close>
  names, the live interval timers exactly the one \<open>this.statsInterval\<close> names, a
  timer or an attached stream exists only beside a connection, and the identifier of the
  connection has been handed out.
\<close>

definition rt_inv :: "rt \<Rightarrow> bool" where
  "rt_inv w =
     (dom (conns w) = set_option (peerConnection w) \<and>
      intervals w = set_option (statsInterval w) \<and>
      (peerConnection w = None \<longrightarrow> statsInterval w = None \<and> srcObject w = None) \<and>
      stream w = srcObject w \<and>
      (\<forall>h. peerConnection w = Some h \<longrightarrow> h < fresh w))"

section \<open>The progressive session: \<open>ZLMStreamPlayer\<close>\<close>

subsection \<open>State\<close>

text \<open>
  \<open>play\<close> passes \<open>url\<close> and \<open>type\<close> to \<open>mpegts.createPlayer\<close> in its first argument
  (lines 105-116); the error handler reads them back from \<open>this.player._config\<close> (lines
  228-229), a private member of the library's player object. What the player object
  holds there is the library's business, so the model takes it from the environment when
  the player is created: no \<open>_config\<close> at all (\<open>None\<close>; reading \<open>_config.url\<close> then
  throws), or a \<open>_config\<close> with whatever \<open>url\<close> and \<open>type\<close> it has. An argument or a
  property that is omitted or \<open>undefined\<close> is the empty string, which is falsy as well.
\<close>

record player_config =
  config_url :: string
  config_type :: string

text \<open>The two \<open>setTimeout\<close> callbacks: the reconnection and the watchdog of \<open>play\<close>.\<close>

datatype pg_timeout = Reconnect string string | Watchdog string

datatype pg_cont = AwaitVideoPlay nat

text \<open>What the interval callback reads: \<open>player.statisticsInfo\<close> and the media time.\<close>

record statistics_info =
  speed :: "nat option"
  info_decodedFrames :: "nat option"
  info_droppedFrames :: "nat option"
  info_totalBytes :: "nat option"
  media_time_ms :: nat

text \<open>
  \<open>players\<close> holds the players that are not destroyed. \<open>video_src\<close> is the player whose
  media source the video element shows, if any. \<open>playing_listeners\<close> counts the
  listeners \<open>_setupEventListeners\<close> has added to the video element for \<open>playing\<close>; none
  is ever removed. \<open>scheduled\<close> records every \<open>setTimeout\<close> call, \<open>pg_timeouts\<close> the
  timers still pending: identifier, due time in milliseconds, callback. \<open>created\<close>
  records the \<open>type\<close> and \<open>url\<close> of every \<open>mpegts.createPlayer\<close> call;
  \<open>options.mpegtsOptions\<close>, which is spread over them, is taken to be the default \<open>{}\<close>.
\<close>

record pg =
  player :: "nat option"
  pg_statsInterval :: "nat option"
  latencyStartTime :: nat
  reconnectAttempts :: nat
  maxReconnectAttempts :: nat
  streamType :: string
  pg_statsContainer :: "pg_sample display option"
  video_src :: "nat option"
  playing_listeners :: nat
  players :: "nat \<rightharpoonup> player_config option"
  pg_intervals :: "nat set"
  pg_timeouts :: "(nat \<times> nat \<times> pg_timeout) list"
  scheduled :: "(nat \<times> nat \<times> pg_timeout) list"
  created :: "(string \<times> string) list"
  pg_now :: nat
  pg_fresh :: nat
  pg_calls :: "nat \<rightharpoonup> pg_cont"
  pg_results :: "nat \<rightharpoonup> error + bool"
  pg_callbacks :: "callback list"

text \<open>
  The constructor (lines 16-63), where \<open>mpegts.js\<close> is present and supports live
  playback. \<open>st\<close> is \<open>options.streamType\<close>.
\<close>

definition pg_init :: "bool \<Rightarrow> string \<Rightarrow> pg" where
  "pg_init sc st =
     \<lparr> player = None, pg_statsInterval = None, latencyStartTime = 0,
       reconnectAttempts = 0, maxReconnectAttempts = 3,
       streamType = (if st \<noteq> [] then st else ''flv''),
       pg_statsContainer = (if sc then Some Blank else None), video_src = None,
       playing_listeners = 0, players = Map.empty, pg_intervals = {}, pg_timeouts = [],
       scheduled = [], created = [], pg_now = 0, pg_fresh = 0, pg_calls = Map.empty,
       pg_results = Map.empty, pg_callbacks = [] \<rparr>"

subsection \<open>\<open>stop\<close> (lines 267-289)\<close>

definition pg_stop :: "pg \<Rightarrow> pg" where
  "pg_stop w =
     (let w1 = (case pg_statsInterval w of
                  None \<Rightarrow> w
                | Some t \<Rightarrow> w\<lparr>pg_intervals := pg_intervals w - {t}, pg_statsInterval := None\<rparr>);
          w2 = (case player w1 of
                  None \<Rightarrow> w1
                | Some p \<Rightarrow> w1\<lparr>players := (players w1)(p := None), player := None\<rparr>);
          w3 = w2\<lparr>video_src := None\<rparr>;
          w4 = (case pg_statsContainer w3 of
                  None \<Rightarrow> w3
                | Some d \<Rightarrow> w3\<lparr>pg_statsContainer := Some Blank\<rparr>)
      in w4\<lparr>pg_callbacks := pg_callbacks w4 @ [OnDisconnected]\<rparr>)"

subsection \<open>\<open>_startStatsMonitoring\<close> (lines 295-334)\<close>

definition pg_startStatsMonitoring :: "pg \<Rightarrow> pg" where
  "pg_startStatsMonitoring w =
     (case pg_statsInterval w of
        Some t \<Rightarrow> w
      | None \<Rightarrow> w\<lparr>pg_intervals := insert (pg_fresh w) (pg_intervals w),
                  pg_statsInterval := Some (pg_fresh w), pg_fresh := Suc (pg_fresh w)\<rparr>)"

text \<open>\<open>x || 0\<close> on a counter that may be missing.\<close>

definition or_zero :: "nat option \<Rightarrow> nat" where
  "or_zero x = (case x of None \<Rightarrow> 0 | Some n \<Rightarrow> n)"

text \<open>
  The sample of lines 301-316. \<open>media_time_ms\<close> is the difference of the two dates in
  milliseconds; \<open>Math.round\<close> of its thousandth is the estimated latency.
\<close>

definition pg_sample_of :: "statistics_info \<Rightarrow> pg_sample" where
  "pg_sample_of i =
     \<lparr> currentSpeed = or_zero (speed i), decodedFrames = or_zero (info_decodedFrames i),
       droppedFrames = or_zero (info_droppedFrames i), totalBytes = or_zero (info_totalBytes i),
       estimatedLatency = (media_time_ms i + 500) div 1000 \<rparr>"

definition pg_tick :: "statistics_info \<Rightarrow> pg \<Rightarrow> pg" where
  "pg_tick i w =
     (case player w of
        None \<Rightarrow> w
      | Some p \<Rightarrow>
          (case pg_statsContainer w of
             None \<Rightarrow> w
           | Some d \<Rightarrow> w\<lparr>pg_statsContainer := Some (Rendered (pg_sample_of i))\<rparr>)
          \<lparr>pg_callbacks := pg_callbacks w @ [OnStatsPg (pg_sample_of i)]\<rparr>)"

subsection \<open>\<open>play\<close> (lines 89-179)\<close>

text \<open>The \<open>catch\<close> block of \<open>play\<close>.\<close>

definition pg_fail :: "nat \<Rightarrow> error \<Rightarrow> pg \<Rightarrow> pg" where
  "pg_fail c e w =
     (pg_stop (w\<lparr>pg_callbacks := pg_callbacks w @ [OnError e]\<rparr>))
       \<lparr>pg_calls := (pg_calls w)(c := None), pg_results := (pg_results w)(c \<mapsto> Inl e)\<rparr>"

text \<open>
  The synchronous part of \<open>play\<close>, up to \<open>await this.videoElement.play()\<close>. \<open>create\<close>
  is what \<open>mpegts.createPlayer\<close> does: it throws, or it returns a player, given with
  its \<open>_config\<close> if it has one. \<open>attachMediaElement\<close> and \<open>load\<close> are taken not to
  throw. \<open>_setupEventListeners\<close> (lines 185-262) registers the error
  handler on the new player and one more \<open>playing\<close> listener on the video element.
\<close>

definition pg_play ::
  "string \<Rightarrow> string \<Rightarrow> error + player_config option \<Rightarrow> pg \<Rightarrow> pg" where
  "pg_play url type create w =
     (let c = pg_fresh w; w0 = w\<lparr>pg_fresh := Suc c\<rparr> in
      if url = [] then w0\<lparr>pg_results := (pg_results w0)(c \<mapsto> Inl StreamUrlRequired)\<rparr>
      else
        let streamType = (if type \<noteq> [] then type else streamType w0);
            w1 = (pg_stop w0)\<lparr>latencyStartTime := pg_now w0,
                              created := created w0 @ [(streamType, url)]\<rparr> in
        case create of
          Inl e \<Rightarrow> pg_fail c e w1
        | Inr cfg \<Rightarrow>
            let p = pg_fresh w1; t = Suc p in
            w1\<lparr>pg_fresh := Suc t, player := Some p,
               players := (players w1)(p \<mapsto> cfg),
               video_src := Some p,
               playing_listeners := Suc (playing_listeners w1),
               pg_timeouts := pg_timeouts w1 @ [(t, pg_now w1 + 5000, Watchdog url)],
               scheduled := scheduled w1 @ [(t, pg_now w1 + 5000, Watchdog url)],
               pg_calls := (pg_calls w1)(c \<mapsto> AwaitVideoPlay t)\<rparr>)"

text \<open>\<open>this.videoElement.play()\<close> settled (lines 165-178).\<close>

definition pg_video_play_settled :: "nat \<Rightarrow> error option \<Rightarrow> pg \<Rightarrow> pg" where
  "pg_video_play_settled c outcome w =
     (case pg_calls w c of
        Some (AwaitVideoPlay t) \<Rightarrow>
          (case outcome of
             Some e \<Rightarrow> pg_fail c e w
           | None \<Rightarrow>
               (let w1 = w\<lparr>pg_timeouts := filter (\<lambda>(i, due, k). i \<noteq> t) (pg_timeouts w)\<rparr>;
                    w2 = pg_startStatsMonitoring w1
                in w2\<lparr>pg_callbacks := pg_callbacks w2 @ [OnConnected],
                      pg_calls := (pg_calls w2)(c := None),
                      pg_results := (pg_results w2)(c \<mapsto> Inr True)\<rparr>))
      | None \<Rightarrow> w)"

subsection \<open>The event handlers of \<open>_setupEventListeners\<close>\<close>

text \<open>
  The handler of \<open>mpegts.Events.ERROR\<close> (lines 207-237). \<open>this.player._config.url\<close> is
  read after \<open>onError\<close> is called and the counter is incremented. Where \<open>this.player\<close>
  is \<open>null\<close>, or the player has no \<open>_config\<close>, the read throws and the handler ends
  there: no timeout is set.
\<close>

definition pg_on_error :: "error_type \<Rightarrow> string \<Rightarrow> pg \<Rightarrow> pg" where
  "pg_on_error errorType errorDetail w =
     (let w1 = w\<lparr>pg_callbacks := pg_callbacks w @ [OnError (PlayerError errorType errorDetail)]\<rparr> in
      if errorType = NETWORK_ERROR \<and> reconnectAttempts w1 < maxReconnectAttempts w1
      then
        let w2 = w1\<lparr>reconnectAttempts := Suc (reconnectAttempts w1)\<rparr> in
        case player w2 of
          None \<Rightarrow> w2
        | Some p \<Rightarrow>
            (case players w2 p of
               None \<Rightarrow> w2
             | Some None \<Rightarrow> w2
             | Some (Some cfg) \<Rightarrow>
                 let t = (pg_fresh w2, pg_now w2 + 2000, Reconnect (config_url cfg) (config_type cfg)) in
                 w2\<lparr>pg_timeouts := pg_timeouts w2 @ [t], scheduled := scheduled w2 @ [t],
                    pg_fresh := Suc (pg_fresh w2)\<rparr>)
      else w1)"

text \<open>The \<open>playing\<close> listeners of the video element (lines 245-248).\<close>

definition pg_on_playing :: "pg \<Rightarrow> pg" where
  "pg_on_playing w = (if playing_listeners w = 0 then w else w\<lparr>reconnectAttempts := 0\<rparr>)"

text \<open>
  A pending timeout runs once, and not before it is due. The reconnection callback is
  \<open>this.stop(); this.play(url, type)\<close> (lines 230-235); the watchdog (lines 147-163)
  logs and sends a \<open>HEAD\<close> request whose answer is logged, and writes no state.
\<close>

definition pg_fire :: "nat \<Rightarrow> error + player_config option \<Rightarrow> pg \<Rightarrow> pg" where
  "pg_fire t create w =
     (case find (\<lambda>(i, due, k). i = t) (pg_timeouts w) of
        None \<Rightarrow> w
      | Some (i, due, k) \<Rightarrow>
          if due \<le> pg_now w
          then
            let w1 = w\<lparr>pg_timeouts := filter (\<lambda>(i, due, k). i \<noteq> t) (pg_timeouts w)\<rparr> in
            (case k of
               Reconnect url type \<Rightarrow> pg_play url type create (pg_stop w1)
             | Watchdog url \<Rightarrow> w1)
          else w)"

text \<open>A player that is destroyed emits nothing.\<close>

datatype pg_event =
    PgPlay string string "error + player_config option"
  | PgStop
  | PgVideoPlaySettled nat "error option"
  | PgError nat error_type string
  | PgPlaying
  | PgAdvance nat
  | PgFire nat "error + player_config option"
  | PgTick nat statistics_info

fun pg_step :: "pg_event \<Rightarrow> pg \<Rightarrow> pg" where
  "pg_step (PgPlay url type create) w = pg_play url type create w"
| "pg_step PgStop w = pg_stop w"
| "pg_step (PgVideoPlaySettled c outcome) w = pg_video_play_settled c outcome w"
| "pg_step (PgError p errorType errorDetail) w =
     (case players w p of None \<Rightarrow> w | Some cfg \<Rightarrow> pg_on_error errorType errorDetail w)"
| "pg_step PgPlaying w = pg_on_playing w"
| "pg_step (PgAdvance dt) w = w\<lparr>pg_now := pg_now w + dt\<rparr>"
| "pg_step (PgFire t create) w = pg_fire t create w"
| "pg_step (PgTick t i) w = (if t \<in> pg_intervals w then pg_tick i w else w)"

definition pg_run :: "pg_event list \<Rightarrow> pg \<Rightarrow> pg" where
  "pg_run evs w = fold pg_step evs w"

text \<open>
  What every task of the progressive session keeps: the players that are not destroyed are
  exactly the one \<open>this.player\<close> names, the live interval timers exactly the one
  \<open>this.statsInterval\<close> names, the maximum is 3 and the counter never passes it, and a
  player or a counted attempt exists only once a \<open>playing\<close> listener is registered.
\<close>

definition pg_inv :: "pg \<Rightarrow> bool" where
  "pg_inv w =
     (dom (players w) = set_option (player w) \<and>
      pg_intervals w = set_option (pg_statsInterval w) \<and>
      maxReconnectAttempts w = 3 \<and>
      reconnectAttempts w \<le> 3 \<and>
      (playing_listeners w = 0 \<longrightarrow> reconnectAttempts w = 0 \<and> player w = None) \<and>
      (\<forall>p. player w = Some p \<longrightarrow> p < pg_fresh w))"

section \<open>Scenarios\<close>

text \<open>
  The two tasks that handle the signaling response of call \<open>c\<close>, one after the other:
  \<open>fetch\<close> settles with the response \<open>r\<close>, then \<open>response.json()\<close> settles with the
  body of \<open>r\<close>.
\<close>

definition rt_on_response :: "nat \<Rightarrow> response \<Rightarrow> rt \<Rightarrow> rt" where
  "rt_on_response c r w = rt_json_settled c (rt_fetch_settled c (Inr r) w)"

text \<open>
  A session whose first \<open>play\<close> (call 0, connection 1) has created and committed its
  offer; and the same session once ICE gathering has completed and the offer is sent.
\<close>

abbreviation rt_waiting :: rt where
  "rt_waiting \<equiv>
     rt_run [RtPlay ''http://zlm/rtc'' None, RtOfferSettled 0 (Inr ''v=0''),
             RtLocalSettled 0 None]
       (rt_init True ''http://page'')"

abbreviation rt_at_fetch :: rt where
  "rt_at_fetch \<equiv> rt_run [RtGatheringChange 1 GatherComplete] rt_waiting"

text \<open>
  The reconnections scheduled so far, and the network-class errors that reach the error
  handler during a run (an error event of a destroyed player reaches nothing).
\<close>

fun is_reconnect :: "nat \<times> nat \<times> pg_timeout \<Rightarrow> bool" where
  "is_reconnect (i, due, Reconnect url type) = True"
| "is_reconnect (i, due, Watchdog url) = False"

definition reconnects :: "pg \<Rightarrow> nat" where
  "reconnects w = length (filter is_reconnect (scheduled w))"

fun reaches_handler :: "pg \<Rightarrow> pg_event \<Rightarrow> bool" where
  "reaches_handler w (PgError p errorType errorDetail) =
     (errorType = NETWORK_ERROR \<and> players w p \<noteq> None)"
| "reaches_handler w ev = False"

fun delivered :: "pg_event list \<Rightarrow> pg \<Rightarrow> nat" where
  "delivered [] w = 0"
| "delivered (ev # evs) w =
     (if reaches_handler w ev then 1 else 0) + delivered evs (pg_step ev w)"

text \<open>
  A progressive session that is played once (call 0, player 1, watchdog 2) with a player
  object that has no \<open>_config\<close>, and then meets network errors.
\<close>

abbreviation pg_played :: pg where
  "pg_played \<equiv> pg_run [PgPlay ''http://zlm/live.flv'' [] (Inr None)] (pg_init True ''flv'')"

abbreviation pg_three_errors :: "pg_event list" where
  "pg_three_errors \<equiv>
     [PgError 1 NETWORK_ERROR ''Exception'', PgError 1 NETWORK_ERROR ''Exception'',
      PgError 1 NETWORK_ERROR ''Exception'']"

text \<open>
  The same with a player object whose \<open>_config\<close> exists and has no \<open>url\<close> and no
  \<open>type\<close>: one network error, and the reconnection (timer 3) two seconds later.
\<close>

abbreviation pg_replayed :: pg where
  "pg_replayed \<equiv>
     pg_run [PgPlay ''http://zlm/live.flv'' []
               (Inr (Some \<lparr>config_url = [], config_type = []\<rparr>)),
             PgError 1 NETWORK_ERROR ''Exception'', PgAdvance 2000,
             PgFire 3 (Inr (Some \<lparr>config_url = [], config_type = []\<rparr>))]
       (pg_init True ''flv'')"



text \<open>
  The session of \<open>rt_waiting\<close>, stopped while its \<open>play\<close> waits for ICE gathering,
  five seconds later, once the timeout of the wait (timer 2) has run.
\<close>

abbreviation rt_stopped_waiting :: rt where
  "rt_stopped_waiting \<equiv> rt_run [RtStop, RtAdvance 5000, RtFire 2] rt_waiting"

text \<open>
  Call \<open>c\<close> waits for ICE gathering and nothing is left that could end the wait: no
  pending timeout of the call, and no open connection that has its \<open>checkState\<close>.
\<close>

definition rt_stuck :: "nat \<Rightarrow> rt \<Rightarrow> bool" where
  "rt_stuck c w =
     ((\<exists>url. calls w c = Some (AwaitIceGathering url)) \<and> results w c = None \<and>
      c < fresh w \<and>
      (\<forall>i due. (i, due, c) \<notin> set (timeouts w)) \<and>
      (\<forall>h cn. conns w h = Some cn \<longrightarrow> c \<notin> set (gatherListeners cn)))"

section \<open>What every task preserves\<close>

lemma dom_singleton_remove: "dom m = {y} \<Longrightarrow> m(y := None) = Map.empty"
  by (metis Diff_cancel dom_eq_empty_conv dom_fun_upd insert_Diff_single)

lemma rt_stop_simps [simp]:
  "peerConnection (rt_stop w) = None"
  "statsInterval (rt_stop w) = None"
  "stream (rt_stop w) = None"
  "srcObject (rt_stop w) = None"
  "statsContainer (rt_stop w) = map_option (\<lambda>d. Blank) (statsContainer w)"
  "location_origin (rt_stop w) = location_origin w"
  "conns (rt_stop w) = (case peerConnection w of None \<Rightarrow> conns w | Some h \<Rightarrow> (conns w)(h := None))"
  "intervals (rt_stop w) = (case statsInterval w of None \<Rightarrow> intervals w | Some t \<Rightarrow> intervals w - {t})"
  "timeouts (rt_stop w) = timeouts w"
  "pending_stats (rt_stop w) = pending_stats w"
  "now (rt_stop w) = now w"
  "fresh (rt_stop w) = fresh w"
  "calls (rt_stop w) = calls w"
  "results (rt_stop w) = results w"
  "callbacks (rt_stop w) = callbacks w"
  "requests (rt_stop w) = requests w"
  "remote_applied (rt_stop w) = remote_applied w"
  by (auto simp: rt_stop_def Let_def split: option.splits)

lemma rt_inv_stop: "rt_inv w \<Longrightarrow> rt_inv (rt_stop w)"
  by (auto simp: rt_inv_def dom_singleton_remove split: option.splits)

lemma rt_fail_simps [simp]:
  "peerConnection (rt_fail c e w) = None"
  "statsInterval (rt_fail c e w) = None"
  "stream (rt_fail c e w) = None"
  "srcObject (rt_fail c e w) = None"
  "statsContainer (rt_fail c e w) = map_option (\<lambda>d. Blank) (statsContainer w)"
  "location_origin (rt_fail c e w) = location_origin w"
  "conns (rt_fail c e w) = (case peerConnection w of None \<Rightarrow> conns w | Some h \<Rightarrow> (conns w)(h := None))"
  "intervals (rt_fail c e w) = (case statsInterval w of None \<Rightarrow> intervals w | Some t \<Rightarrow> intervals w - {t})"
  "timeouts (rt_fail c e w) = timeouts w"
  "pending_stats (rt_fail c e w) = pending_stats w"
  "now (rt_fail c e w) = now w"
  "fresh (rt_fail c e w) = fresh w"
  "calls (rt_fail c e w) = (calls w)(c := None)"
  "results (rt_fail c e w) = (results w)(c \<mapsto> Inl e)"
  "callbacks (rt_fail c e w) = callbacks w @ [OnError e]"
  "requests (rt_fail c e w) = requests w"
  "remote_applied (rt_fail c e w) = remote_applied w"
  by (simp_all add: rt_fail_def split: option.splits)

lemma rt_inv_fail: "rt_inv w \<Longrightarrow> rt_inv (rt_fail c e w)"
  by (auto simp: rt_inv_def dom_singleton_remove split: option.splits)

lemma rt_inv_send_offer: "rt_inv w \<Longrightarrow> rt_inv (rt_send_offer c url w)"
  by (auto simp: rt_send_offer_def rt_inv_fail split: option.splits) (auto simp: rt_inv_def)

lemma rt_inv_play: "rt_inv w \<Longrightarrow> rt_inv (rt_play url ctor w)"
  by (auto simp: rt_inv_def rt_play_def Let_def dom_singleton_remove split: option.splits)

lemma rt_inv_upd_conn:
  "rt_inv w \<Longrightarrow> conns w h = Some cn \<Longrightarrow> rt_inv (w\<lparr>conns := (conns w)(h \<mapsto> cn')\<rparr>)"
  by (auto simp: rt_inv_def)

lemma rt_inv_offer_settled: "rt_inv w \<Longrightarrow> rt_inv (rt_offer_settled c outcome w)"
  by (auto simp: rt_offer_settled_def rt_inv_fail split: option.splits rt_cont.splits sum.splits)
     (auto simp: rt_inv_def)

lemma rt_inv_remove_listener: "rt_inv w \<Longrightarrow> rt_inv (remove_listener c w)"
  by (auto simp: remove_listener_def rt_inv_upd_conn split: option.splits)

lemma rt_inv_add_listener: "rt_inv w \<Longrightarrow> rt_inv (add_listener c w)"
  by (auto simp: add_listener_def rt_inv_upd_conn split: option.splits)

lemma rt_inv_set_local: "rt_inv w \<Longrightarrow> rt_inv (set_local h sdp w)"
  by (auto simp: set_local_def rt_inv_upd_conn split: option.splits)

lemma rt_inv_resolve_ice: "rt_inv w \<Longrightarrow> rt_inv (rt_resolve_ice c w)"
  by (auto simp: rt_resolve_ice_def rt_inv_send_offer split: option.splits rt_cont.splits)

lemma rt_inv_checkState: "rt_inv w \<Longrightarrow> rt_inv (rt_checkState c w)"
  by (auto simp: rt_checkState_def rt_inv_resolve_ice rt_inv_remove_listener split: option.splits)

lemma rt_inv_ice_timeout: "rt_inv w \<Longrightarrow> rt_inv (rt_ice_timeout c w)"
  by (auto simp: rt_ice_timeout_def rt_inv_resolve_ice rt_inv_remove_listener split: option.splits)

lemma rt_inv_frame:
  "rt_inv w \<Longrightarrow> fresh w \<le> f \<Longrightarrow> rt_inv (w\<lparr>timeouts := ts, fresh := f, calls := cs\<rparr>)"
  "rt_inv w \<Longrightarrow> rt_inv (w\<lparr>timeouts := ts\<rparr>)"
  "rt_inv w \<Longrightarrow> rt_inv (w\<lparr>calls := cs\<rparr>)"
  "rt_inv w \<Longrightarrow> rt_inv (w\<lparr>now := n\<rparr>)"
  "rt_inv w \<Longrightarrow> rt_inv (w\<lparr>pending_stats := p\<rparr>)"
  "rt_inv w \<Longrightarrow> rt_inv (w\<lparr>callbacks := cb\<rparr>)"
  "rt_inv w \<Longrightarrow> rt_inv (w\<lparr>calls := cs, results := rs\<rparr>)"
  "rt_inv w \<Longrightarrow> rt_inv (w\<lparr>remote_applied := ra, calls := cs\<rparr>)"
  by (auto simp: rt_inv_def)

lemma add_listener_fresh [simp]: "fresh (add_listener c w) = fresh w"
  by (simp add: add_listener_def split: option.splits)

lemma rt_inv_waitForIceGathering: "rt_inv w \<Longrightarrow> rt_inv (rt_waitForIceGathering c url w)"
  by (auto simp: rt_waitForIceGathering_def rt_inv_fail rt_inv_send_offer rt_inv_frame
      rt_inv_add_listener split: option.splits)

lemma rt_inv_local_settled: "rt_inv w \<Longrightarrow> rt_inv (rt_local_settled c outcome w)"
  by (auto simp: rt_local_settled_def rt_inv_fail rt_inv_waitForIceGathering rt_inv_set_local
      split: option.splits rt_cont.splits)

lemma rt_inv_fetch_settled: "rt_inv w \<Longrightarrow> rt_inv (rt_fetch_settled c outcome w)"
  by (auto simp: rt_fetch_settled_def rt_inv_fail rt_inv_frame
      split: option.splits rt_cont.splits sum.splits)

lemma rt_inv_json_settled: "rt_inv w \<Longrightarrow> rt_inv (rt_json_settled c w)"
  by (auto simp: rt_json_settled_def rt_inv_fail rt_inv_frame
      split: option.splits rt_cont.splits sum.splits)

lemma rt_inv_remote_settled: "rt_inv w \<Longrightarrow> rt_inv (rt_remote_settled c outcome w)"
  by (auto simp: rt_remote_settled_def rt_inv_fail rt_inv_frame
      split: option.splits rt_cont.splits sum.splits)

lemma rt_inv_startStatsMonitoring:
  "rt_inv w \<Longrightarrow> peerConnection w \<noteq> None \<Longrightarrow> rt_inv (rt_startStatsMonitoring w)"
  by (auto simp: rt_startStatsMonitoring_def rt_inv_def split: option.splits)

lemma rt_inv_oniceconnectionstatechange:
  "rt_inv w \<Longrightarrow> rt_inv (rt_oniceconnectionstatechange w)"
  by (auto simp: rt_oniceconnectionstatechange_def current_conn_def rt_inv_frame
      rt_inv_startStatsMonitoring split: option.splits)

lemma rt_inv_connection_change: "rt_inv w \<Longrightarrow> rt_inv (rt_connection_change h st w)"
  by (auto simp: rt_connection_change_def rt_inv_oniceconnectionstatechange rt_inv_upd_conn
      split: option.splits)

lemma rt_inv_fold_checkState: "rt_inv w \<Longrightarrow> rt_inv (fold rt_checkState cs w)"
  by (induction cs arbitrary: w) (simp_all add: rt_inv_checkState)

lemma rt_inv_gathering_change: "rt_inv w \<Longrightarrow> rt_inv (rt_gathering_change h st w)"
  by (auto simp: rt_gathering_change_def rt_inv_fold_checkState rt_inv_upd_conn
      split: option.splits)

lemma rt_inv_candidate: "rt_inv w \<Longrightarrow> rt_inv (rt_candidate h sdp w)"
  by (auto simp: rt_candidate_def rt_inv_upd_conn split: option.splits)

lemma rt_inv_track: "rt_inv w \<Longrightarrow> rt_inv (rt_track h s w)"
  by (auto simp: rt_track_def rt_inv_def split: option.splits)

lemma rt_inv_fire: "rt_inv w \<Longrightarrow> rt_inv (rt_fire t w)"
  by (auto simp: rt_fire_def rt_inv_ice_timeout rt_inv_frame split: option.splits)

lemma rt_inv_tick: "rt_inv w \<Longrightarrow> rt_inv (rt_tick w)"
  by (auto simp: rt_tick_def rt_inv_frame split: option.splits)

lemma rt_inv_report: "rt_inv w \<Longrightarrow> rt_inv (rt_report r w)"
  by (auto simp: rt_report_def rt_inv_def split: option.splits)

lemma rt_inv_fold_report: "rt_inv w \<Longrightarrow> rt_inv (fold rt_report rs w)"
  by (induction rs arbitrary: w) (simp_all add: rt_inv_report)

lemma rt_inv_stats_settled: "rt_inv w \<Longrightarrow> rt_inv (rt_stats_settled rs w)"
  by (simp add: rt_stats_settled_def rt_inv_fold_report rt_inv_frame)

lemma rt_inv_step: "rt_inv w \<Longrightarrow> rt_inv (rt_step ev w)"
  by (cases ev)
     (simp_all add: rt_inv_play rt_inv_stop rt_inv_offer_settled rt_inv_local_settled
        rt_inv_fetch_settled rt_inv_json_settled rt_inv_remote_settled
        rt_inv_gathering_change rt_inv_connection_change rt_inv_candidate rt_inv_track
        rt_inv_frame rt_inv_fire rt_inv_tick rt_inv_stats_settled)

lemma rt_inv_run: "rt_inv w \<Longrightarrow> rt_inv (rt_run evs w)"
  unfolding rt_run_def by (induction evs arbitrary: w) (simp_all add: rt_inv_step)

lemma rt_inv_init: "rt_inv (rt_init sc origin)"
  by (simp add: rt_inv_def rt_init_def)

lemma pg_stop_simps [simp]:
  "player (pg_stop w) = None"
  "pg_statsInterval (pg_stop w) = None"
  "latencyStartTime (pg_stop w) = latencyStartTime w"
  "reconnectAttempts (pg_stop w) = reconnectAttempts w"
  "maxReconnectAttempts (pg_stop w) = maxReconnectAttempts w"
  "streamType (pg_stop w) = streamType w"
  "pg_statsContainer (pg_stop w) = map_option (\<lambda>d. Blank) (pg_statsContainer w)"
  "video_src (pg_stop w) = None"
  "playing_listeners (pg_stop w) = playing_listeners w"
  "players (pg_stop w) = (case player w of None \<Rightarrow> players w | Some p \<Rightarrow> (players w)(p := None))"
  "pg_intervals (pg_stop w) = (case pg_statsInterval w of None \<Rightarrow> pg_intervals w | Some t \<Rightarrow> pg_intervals w - {t})"
  "pg_timeouts (pg_stop w) = pg_timeouts w"
  "scheduled (pg_stop w) = scheduled w"
  "created (pg_stop w) = created w"
  "pg_now (pg_stop w) = pg_now w"
  "pg_fresh (pg_stop w) = pg_fresh w"
  "pg_calls (pg_stop w) = pg_calls w"
  "pg_results (pg_stop w) = pg_results w"
  "pg_callbacks (pg_stop w) = pg_callbacks w @ [OnDisconnected]"
  by (auto simp: pg_stop_def Let_def split: option.splits)

lemma pg_inv_stop: "pg_inv w \<Longrightarrow> pg_inv (pg_stop w)"
  by (auto simp: pg_inv_def dom_singleton_remove split: option.splits)

lemma pg_fail_simps [simp]:
  "player (pg_fail c e w) = None"
  "pg_statsInterval (pg_fail c e w) = None"
  "latencyStartTime (pg_fail c e w) = latencyStartTime w"
  "reconnectAttempts (pg_fail c e w) = reconnectAttempts w"
  "maxReconnectAttempts (pg_fail c e w) = maxReconnectAttempts w"
  "streamType (pg_fail c e w) = streamType w"
  "pg_statsContainer (pg_fail c e w) = map_option (\<lambda>d. Blank) (pg_statsContainer w)"
  "video_src (pg_fail c e w) = None"
  "playing_listeners (pg_fail c e w) = playing_listeners w"
  "players (pg_fail c e w) = (case player w of None \<Rightarrow> players w | Some p \<Rightarrow> (players w)(p := None))"
  "pg_intervals (pg_fail c e w) = (case pg_statsInterval w of None \<Rightarrow> pg_intervals w | Some t \<Rightarrow> pg_intervals w - {t})"
  "pg_timeouts (pg_fail c e w) = pg_timeouts w"
  "scheduled (pg_fail c e w) = scheduled w"
  "created (pg_fail c e w) = created w"
  "pg_now (pg_fail c e w) = pg_now w"
  "pg_fresh (pg_fail c e w) = pg_fresh w"
  "pg_calls (pg_fail c e w) = (pg_calls w)(c := None)"
  "pg_results (pg_fail c e w) = (pg_results w)(c \<mapsto> Inl e)"
  "pg_callbacks (pg_fail c e w) = pg_callbacks w @ [OnError e, OnDisconnected]"
  by (simp_all add: pg_fail_def split: option.splits)

lemma pg_inv_fail: "pg_inv w \<Longrightarrow> pg_inv (pg_fail c e w)"
  by (auto simp: pg_inv_def dom_singleton_remove split: option.splits)

lemma pg_inv_play: "pg_inv w \<Longrightarrow> pg_inv (pg_play url type create w)"
  by (auto simp: pg_inv_def pg_play_def Let_def dom_singleton_remove split: option.splits sum.splits)

lemma pg_inv_startStatsMonitoring: "pg_inv w \<Longrightarrow> pg_inv (pg_startStatsMonitoring w)"
  by (auto simp: pg_startStatsMonitoring_def pg_inv_def split: option.splits)

lemma pg_inv_frame:
  "pg_inv w \<Longrightarrow> pg_inv (w\<lparr>pg_timeouts := ts\<rparr>)"
  "pg_inv w \<Longrightarrow> pg_inv (w\<lparr>pg_now := n\<rparr>)"
  "pg_inv w \<Longrightarrow> pg_inv (w\<lparr>pg_callbacks := cb\<rparr>)"
  "pg_inv w \<Longrightarrow> pg_inv (w\<lparr>pg_callbacks := cb, pg_calls := cs, pg_results := rs\<rparr>)"
  by (simp_all add: pg_inv_def)

lemma pg_inv_video_play_settled: "pg_inv w \<Longrightarrow> pg_inv (pg_video_play_settled c outcome w)"
  by (auto simp: pg_video_play_settled_def Let_def pg_inv_fail pg_inv_frame
      pg_inv_startStatsMonitoring split: option.splits pg_cont.splits)

lemma pg_inv_on_error:
  "pg_inv w \<Longrightarrow> player w \<noteq> None \<Longrightarrow> pg_inv (pg_on_error et d w)"
  by (auto simp: pg_on_error_def Let_def pg_inv_def split: option.splits)

lemma pg_inv_on_playing: "pg_inv w \<Longrightarrow> pg_inv (pg_on_playing w)"
  by (auto simp: pg_on_playing_def pg_inv_def)

lemma pg_inv_fire: "pg_inv w \<Longrightarrow> pg_inv (pg_fire t create w)"
  by (auto simp: pg_fire_def Let_def pg_inv_play pg_inv_stop pg_inv_frame
      split: option.splits pg_timeout.splits)

lemma pg_inv_tick: "pg_inv w \<Longrightarrow> pg_inv (pg_tick i w)"
  by (auto simp: pg_tick_def pg_inv_def split: option.splits)

lemma pg_inv_error_event:
  assumes "pg_inv w"
  shows "pg_inv (pg_step (PgError p et d) w)"
proof (cases "players w p")
  case None
  with assms show ?thesis by simp
next
  case (Some cfg)
  with assms have "player w \<noteq> None" by (auto simp: pg_inv_def)
  with assms Some show ?thesis by (simp add: pg_inv_on_error)
qed

lemma pg_inv_step: "pg_inv w \<Longrightarrow> pg_inv (pg_step ev w)"
  by (cases ev)
     (simp_all add: pg_inv_play pg_inv_stop pg_inv_video_play_settled pg_inv_on_playing
        pg_inv_frame pg_inv_fire pg_inv_tick pg_inv_error_event del: pg_step.simps(4))

lemma pg_inv_run: "pg_inv w \<Longrightarrow> pg_inv (pg_run evs w)"
  unfolding pg_run_def by (induction evs arbitrary: w) (simp_all add: pg_inv_step)

lemma pg_inv_init: "pg_inv (pg_init sc st)"
  by (simp add: pg_inv_def pg_init_def)

section \<open>C1: at most one connection handle per session\<close>



lemma card_set_option: "card (set_option x) \<le> Suc 0"
  by (cases x) simp_all




section \<open>C6: \<open>stop\<close> without a connection handle\<close>

lemma rt_stop_more [simp]: "rt.more (rt_stop w) = rt.more w"
  by (auto simp: rt_stop_def Let_def split: option.splits)

lemma rt_fail_more [simp]: "rt.more (rt_fail c e w) = rt.more w"
  by (simp add: rt_fail_def)

lemma pg_stop_more [simp]: "pg.more (pg_stop w) = pg.more w"
  by (auto simp: pg_stop_def Let_def split: option.splits)

lemma rt_stop_idem: "rt_stop (rt_stop w) = rt_stop w"
  by (rule rt.equality) (simp_all add: option.map_comp comp_def)

lemma rt_stop_no_handle:
  assumes "rt_inv w" and "peerConnection w = None"
  shows "rt_stop w = w\<lparr>statsContainer := map_option (\<lambda>d. Blank) (statsContainer w)\<rparr>"
  using assms by (intro rt.equality) (simp_all add: rt_inv_def)

lemma pg_stop_twice:
  "pg_stop (pg_stop v) = (pg_stop v)\<lparr>pg_callbacks := pg_callbacks (pg_stop v) @ [OnDisconnected]\<rparr>"
  by (rule pg.equality) (simp_all add: option.map_comp comp_def)

text \<open>
  Claim C6, as stated, fails for the progressive session: its \<open>stop\<close> ends with an
  unconditional \<open>this.onDisconnected()\<close> (line 288), so the callback fires on a session
  that was never played.
\<close>

theorem stop_noop_counterexample:
  "player (pg_init True ''flv'') = None \<and>
   pg_callbacks (pg_init True ''flv'') = [] \<and>
   pg_callbacks (pg_stop (pg_init True ''flv'')) = [OnDisconnected] \<and>
   pg_stop (pg_init True ''flv'') \<noteq> pg_init True ''flv''"
  by (simp add: pg_init_def pg_stop_def)

text \<open>
  Claim C6, amended. \<open>stop\<close> has no failing branch in either class. In the real-time
  session, at any moment where no connection handle exists, \<open>stop\<close> fires no callback and
  changes nothing but the stats display, which it empties again (a sample requested
  before the last \<open>stop\<close> may have been rendered since); a second \<open>stop\<close> changes
  nothing at all. In the progressive session every \<open>stop\<close> invokes \<open>onDisconnected\<close>,
  and a \<open>stop\<close> after a \<open>stop\<close> does nothing else.
\<close>

theorem stop_without_handle:
  "(rt_inv w \<and> peerConnection w = None \<longrightarrow>
      rt_stop w = w\<lparr>statsContainer := map_option (\<lambda>d. Blank) (statsContainer w)\<rparr> \<and>
      callbacks (rt_stop w) = callbacks w) \<and>
   rt_stop (rt_stop w) = rt_stop w \<and>
   pg_callbacks (pg_stop v) = pg_callbacks v @ [OnDisconnected] \<and>
   pg_stop (pg_stop v) =
     (pg_stop v)\<lparr>pg_callbacks := pg_callbacks (pg_stop v) @ [OnDisconnected]\<rparr>"
  using rt_stop_no_handle [of w] rt_stop_idem [of w] pg_stop_twice [of v] by simp

theorem stop_without_handle_witness:
  "rt_inv (rt_init True ''o'') \<and> peerConnection (rt_init True ''o'') = None \<and>
   rt_stop (rt_init True ''o'') = rt_init True ''o'' \<and>
   pg_stop (pg_stop (pg_init True ''flv'')) =
     (pg_init True ''flv'')\<lparr>pg_callbacks := [OnDisconnected, OnDisconnected]\<rparr>"
  using stop_without_handle [of "rt_init True ''o''" "pg_init True ''flv''"]
    rt_inv_init [of True "''o''"]
  by (simp add: rt_init_def pg_init_def pg_stop_def)

section \<open>The signaling response\<close>

lemma rt_fail_calls_upd:
  "rt_fail c e (w\<lparr>calls := (calls w)(c \<mapsto> k)\<rparr>) = rt_fail c e w"
  by (rule rt.equality) (simp_all split: option.splits)

lemma rt_on_response_eq:
  assumes "calls w c = Some AwaitFetch"
  shows "rt_on_response c r w =
     (if \<not> ok r then rt_fail c (ServerReturned (status r) (statusText r)) w
      else case json_body r of
             Inl e \<Rightarrow> rt_fail c e w
           | Inr result \<Rightarrow>
               (case rt_check_result result of
                  Inl e \<Rightarrow> rt_fail c e w
                | Inr answerSdp \<Rightarrow>
                    (case peerConnection w of
                       None \<Rightarrow> rt_fail c TypeError w
                     | Some h \<Rightarrow>
                         w\<lparr>remote_applied := remote_applied w @ [(h, answerSdp)],
                           calls := (calls w)(c \<mapsto> AwaitSetRemote h answerSdp)\<rparr>)))"
  using assms
  by (simp add: rt_on_response_def rt_fetch_settled_def rt_json_settled_def rt_fail_calls_upd
      split: sum.splits option.splits)

lemma rt_inv_stopped:
  assumes "rt_inv w"
  shows "conns (rt_fail c e w) = Map.empty" and "intervals (rt_fail c e w) = {}"
  using assms by (auto simp: rt_inv_def dom_singleton_remove split: option.splits)

lemma check_result_code:
  "get_prop result ''code'' \<noteq> Some (JNum 0) \<Longrightarrow> \<exists>e. rt_check_result result = Inl e"
  by (simp add: rt_check_result_def split: json.splits)

lemma check_result_Inr:
  "rt_check_result result = Inr a \<Longrightarrow> get_prop result ''code'' = Some (JNum 0)"
  by (auto simp: rt_check_result_def split: json.splits if_splits)

lemma check_result_nonzero:
  "map_of kvs ''code'' = Some v \<Longrightarrow> v \<noteq> JNum 0 \<Longrightarrow>
   rt_check_result (JObj kvs) = Inl (ZLMediaKitError (msg_or_default (JObj kvs)))"
  by (simp add: rt_check_result_def)

lemma check_result_no_answer:
  assumes "get_prop result ''code'' = Some (JNum 0)"
    and "\<not> truthy (get_prop result ''sdp'')"
    and "\<not> truthy (get_prop result ''answer'')"
    and "\<not> truthy (get_opt_prop (get_prop result ''data'') ''sdp'')"
  shows "rt_check_result result = Inl NoSdpAnswer"
  using assms by (cases result) (auto simp: rt_check_result_def answer_of_def js_or_def split: option.splits)

lemma answer_of_chain:
  "answer_of result =
     (if truthy (get_prop result ''sdp'') then get_prop result ''sdp''
      else if truthy (get_prop result ''answer'') then get_prop result ''answer''
      else get_opt_prop (get_prop result ''data'') ''sdp'')"
  by (simp add: answer_of_def js_or_def)

lemma check_result_answer:
  assumes "get_prop result ''code'' = Some (JNum 0)" and "answer_of result = Some a"
    and "truthy (Some a)"
  shows "rt_check_result result = Inr a"
  using assms by (cases result) (auto simp: rt_check_result_def)

lemmas rt_eval =
  rt_run_def rt_init_def rt_play_def rt_offer_settled_def rt_local_settled_def set_local_def
  rt_waitForIceGathering_def current_conn_def add_listener_def rt_gathering_change_def
  rt_checkState_def remove_listener_def rt_resolve_ice_def rt_send_offer_def
  signaling_request_def new_connection_def rt_on_response_def rt_fetch_settled_def
  rt_json_settled_def rt_remote_settled_def rt_check_result_def msg_or_default_def
  answer_of_def js_or_def rt_fire_def rt_ice_timeout_def rt_connection_change_def
  rt_oniceconnectionstatechange_def rt_startStatsMonitoring_def rt_candidate_def
  rt_track_def rt_tick_def rt_stats_settled_def rt_report_def Let_def

lemma rt_at_fetch_calls: "calls rt_at_fetch 0 = Some AwaitFetch"
  by (simp add: rt_eval)

lemma rt_at_fetch_state:
  "peerConnection rt_at_fetch = Some 1" "requests rt_at_fetch =
     [\<lparr>req_method = ''POST'', req_url = ''http://zlm/rtc'',
       req_headers = [(''Content-Type'', ''text/plain;charset=UTF-8''),
          (''Origin'', ''http://page''),
          (''Accept'', ''application/json, text/plain, */*''),
          (''User-Agent'', ''Mozilla/5.0 (compatible; WebRTCPlayer)'')],
       req_body = ''v=0''\<rparr>]"
  "callbacks rt_at_fetch = []" "timeouts rt_at_fetch = [(2, 5000, 0)]"
  "remote_applied rt_at_fetch = []"
  by (simp_all add: rt_eval)

section \<open>C4: a non-zero application code\<close>

text \<open>
  Claim C4, as stated, fails where the HTTP status is not a success: line 196 throws
  before the body is read, so the error reports the status and never carries \<open>msg\<close>.
\<close>

theorem msg_regardless_of_status_counterexample:
  "calls rt_at_fetch 0 = Some AwaitFetch \<and>
   results (rt_on_response 0
      \<lparr>ok = False, status = 500, statusText = ''Internal Server Error'',
        json_body = Inr (JObj [(''code'', JNum 1), (''msg'', JStr ''stream not found'')])\<rparr>
      rt_at_fetch) 0 = Some (Inl (ServerReturned 500 ''Internal Server Error''))"
proof (intro conjI)
  show "calls rt_at_fetch 0 = Some AwaitFetch"
    by (rule rt_at_fetch_calls)
  show "results (rt_on_response 0
      \<lparr>ok = False, status = 500, statusText = ''Internal Server Error'',
        json_body = Inr (JObj [(''code'', JNum 1), (''msg'', JStr ''stream not found'')])\<rparr>
      rt_at_fetch) 0 = Some (Inl (ServerReturned 500 ''Internal Server Error''))"
    unfolding rt_on_response_eq [OF rt_at_fetch_calls] by simp
qed

text \<open>
  Claim C4, amended. When the response to a suspended \<open>play\<close> has a JSON object body
  whose \<open>code\<close> is present and is not the number 0, \<open>play\<close> rejects whatever the HTTP
  status is, \<open>onError\<close> is invoked with the same error, no remote description is
  applied, and \<open>stop\<close> leaves no connection handle and no timer. With a success status
  the error is the ZLMediaKit error built from \<open>result.msg || 'Unknown error'\<close>, which
  is \<open>msg\<close> itself when \<open>msg\<close> is a non-empty string; otherwise the error is the one of
  line 197, built from the HTTP status.
\<close>

theorem nonzero_code_rejects:
  assumes "calls w c = Some AwaitFetch"
    and "json_body r = Inr (JObj kvs)" and "map_of kvs ''code'' = Some v" and "v \<noteq> JNum 0"
  shows "results (rt_on_response c r w) c =
           Some (Inl (if ok r then ZLMediaKitError (msg_or_default (JObj kvs))
                      else ServerReturned (status r) (statusText r))) \<and>
         callbacks (rt_on_response c r w) =
           callbacks w @ [OnError (if ok r then ZLMediaKitError (msg_or_default (JObj kvs))
                                   else ServerReturned (status r) (statusText r))] \<and>
         peerConnection (rt_on_response c r w) = None \<and>
         calls (rt_on_response c r w) c = None \<and>
         remote_applied (rt_on_response c r w) = remote_applied w \<and>
         (rt_inv w \<longrightarrow> conns (rt_on_response c r w) = Map.empty \<and>
                     intervals (rt_on_response c r w) = {}) \<and>
         (\<forall>m. map_of kvs ''msg'' = Some (JStr m) \<and> m \<noteq> [] \<longrightarrow>
              msg_or_default (JObj kvs) = JStr m)"
proof -
  have chk: "rt_check_result (JObj kvs) = Inl (ZLMediaKitError (msg_or_default (JObj kvs)))"
    using assms(3,4) by (rule check_result_nonzero)
  have eq: "rt_on_response c r w =
      rt_fail c (if ok r then ZLMediaKitError (msg_or_default (JObj kvs))
                 else ServerReturned (status r) (statusText r)) w"
    by (simp add: rt_on_response_eq [OF assms(1)] assms(2) chk)
  have closed: "rt_inv w \<longrightarrow> conns (rt_on_response c r w) = Map.empty \<and>
      intervals (rt_on_response c r w) = {}"
    unfolding eq using rt_inv_stopped by blast
  have msg: "\<forall>m. map_of kvs ''msg'' = Some (JStr m) \<and> m \<noteq> [] \<longrightarrow>
      msg_or_default (JObj kvs) = JStr m"
    by (simp add: msg_or_default_def)
  have rest: "results (rt_on_response c r w) c =
           Some (Inl (if ok r then ZLMediaKitError (msg_or_default (JObj kvs))
                      else ServerReturned (status r) (statusText r))) \<and>
         callbacks (rt_on_response c r w) =
           callbacks w @ [OnError (if ok r then ZLMediaKitError (msg_or_default (JObj kvs))
                                   else ServerReturned (status r) (statusText r))] \<and>
         peerConnection (rt_on_response c r w) = None \<and>
         calls (rt_on_response c r w) c = None \<and>
         remote_applied (rt_on_response c r w) = remote_applied w"
    unfolding eq by simp
  from rest closed msg show ?thesis by blast
qed

theorem nonzero_code_rejects_witness:
  "calls rt_at_fetch 0 = Some AwaitFetch \<and>
   results (rt_on_response 0
      \<lparr>ok = True, status = 200, statusText = ''OK'',
        json_body = Inr (JObj [(''code'', JNum 1), (''msg'', JStr ''stream not found'')])\<rparr>
      rt_at_fetch) 0 = Some (Inl (ZLMediaKitError (JStr ''stream not found''))) \<and>
   conns (rt_on_response 0
      \<lparr>ok = True, status = 200, statusText = ''OK'',
        json_body = Inr (JObj [(''code'', JNum 1), (''msg'', JStr ''stream not found'')])\<rparr>
      rt_at_fetch) = Map.empty"
  using nonzero_code_rejects [of rt_at_fetch 0
      "\<lparr>ok = True, status = 200, statusText = ''OK'',
        json_body = Inr (JObj [(''code'', JNum 1), (''msg'', JStr ''stream not found'')])\<rparr>"
      "[(''code'', JNum 1), (''msg'', JStr ''stream not found'')]" "JNum 1"]
    rt_inv_run [OF rt_inv_run [OF rt_inv_init], of "[RtGatheringChange 1 GatherComplete]"
      "[RtPlay ''http://zlm/rtc'' None, RtOfferSettled 0 (Inr ''v=0''), RtLocalSettled 0 None]"
      True "''http://page''"]
    rt_at_fetch_calls
  by (simp add: msg_or_default_def)

section \<open>C5: a response without an answer\<close>

text \<open>
  Claim C5, as stated, fails for a body that lacks \<open>code\<close> as well: the check of line
  203 comes first, and \<open>play\<close> rejects with the ZLMediaKit error, not with the
  missing-answer error.
\<close>

theorem missing_answer_counterexample:
  "calls rt_at_fetch 0 = Some AwaitFetch \<and>
   get_prop (JObj []) ''sdp'' = None \<and> get_prop (JObj []) ''answer'' = None \<and>
   get_opt_prop (get_prop (JObj []) ''data'') ''sdp'' = None \<and>
   results (rt_on_response 0
      \<lparr>ok = True, status = 200, statusText = ''OK'', json_body = Inr (JObj [])\<rparr>
      rt_at_fetch) 0 = Some (Inl (ZLMediaKitError (JStr ''Unknown error''))) \<and>
   results (rt_on_response 0
      \<lparr>ok = True, status = 200, statusText = ''OK'', json_body = Inr (JObj [])\<rparr>
      rt_at_fetch) 0 \<noteq> Some (Inl NoSdpAnswer)"
proof -
  have "results (rt_on_response 0
      \<lparr>ok = True, status = 200, statusText = ''OK'', json_body = Inr (JObj [])\<rparr>
      rt_at_fetch) 0 = Some (Inl (ZLMediaKitError (JStr ''Unknown error'')))"
    unfolding rt_on_response_eq [OF rt_at_fetch_calls]
    by (simp add: rt_check_result_def msg_or_default_def)
  then show ?thesis
    using rt_at_fetch_calls by simp
qed

text \<open>
  Claim C5, amended. For a response with a success status whose body has \<open>code\<close> equal
  to the number 0: when none of \<open>sdp\<close>, \<open>answer\<close> and \<open>data.sdp\<close> is present (or each is
  falsy), \<open>play\<close> rejects with the missing-answer error of line 209, \<open>onError\<close> is
  invoked and the session is torn down. The answer is the first truthy one of the three,
  in this order, and it is what \<open>setRemoteDescription\<close> is called with.
\<close>

theorem missing_answer_rejects:
  assumes "calls w c = Some AwaitFetch" and "ok r" and "json_body r = Inr result"
    and "get_prop result ''code'' = Some (JNum 0)"
  shows "(\<not> truthy (get_prop result ''sdp'') \<and> \<not> truthy (get_prop result ''answer'') \<and>
          \<not> truthy (get_opt_prop (get_prop result ''data'') ''sdp'') \<longrightarrow>
            results (rt_on_response c r w) c = Some (Inl NoSdpAnswer) \<and>
            callbacks (rt_on_response c r w) = callbacks w @ [OnError NoSdpAnswer] \<and>
            peerConnection (rt_on_response c r w) = None \<and>
            remote_applied (rt_on_response c r w) = remote_applied w) \<and>
         answer_of result =
           (if truthy (get_prop result ''sdp'') then get_prop result ''sdp''
            else if truthy (get_prop result ''answer'') then get_prop result ''answer''
            else get_opt_prop (get_prop result ''data'') ''sdp'') \<and>
         (\<forall>a h. answer_of result = Some a \<and> truthy (Some a) \<and> peerConnection w = Some h \<longrightarrow>
            remote_applied (rt_on_response c r w) = remote_applied w @ [(h, a)] \<and>
            calls (rt_on_response c r w) c = Some (AwaitSetRemote h a))"
proof (intro conjI impI allI)
  assume f: "\<not> truthy (get_prop result ''sdp'') \<and> \<not> truthy (get_prop result ''answer'') \<and>
          \<not> truthy (get_opt_prop (get_prop result ''data'') ''sdp'')"
  then have chk: "rt_check_result result = Inl NoSdpAnswer"
    using assms(4) by (simp add: check_result_no_answer)
  have eq: "rt_on_response c r w = rt_fail c NoSdpAnswer w"
    by (simp add: rt_on_response_eq [OF assms(1)] assms(2,3) chk)
  show "results (rt_on_response c r w) c = Some (Inl NoSdpAnswer)"
    and "callbacks (rt_on_response c r w) = callbacks w @ [OnError NoSdpAnswer]"
    and "peerConnection (rt_on_response c r w) = None"
    and "remote_applied (rt_on_response c r w) = remote_applied w"
    unfolding eq by simp_all
next
  show "answer_of result =
           (if truthy (get_prop result ''sdp'') then get_prop result ''sdp''
            else if truthy (get_prop result ''answer'') then get_prop result ''answer''
            else get_opt_prop (get_prop result ''data'') ''sdp'')"
    by (rule answer_of_chain)
next
  fix a h
  assume a: "answer_of result = Some a \<and> truthy (Some a) \<and> peerConnection w = Some h"
  then have chk: "rt_check_result result = Inr a"
    using assms(4) by (simp add: check_result_answer)
  have eq: "rt_on_response c r w =
      w\<lparr>remote_applied := remote_applied w @ [(h, a)],
        calls := (calls w)(c \<mapsto> AwaitSetRemote h a)\<rparr>"
    using a by (simp add: rt_on_response_eq [OF assms(1)] assms(2,3) chk)
  show "remote_applied (rt_on_response c r w) = remote_applied w @ [(h, a)]"
    and "calls (rt_on_response c r w) c = Some (AwaitSetRemote h a)"
    unfolding eq by simp_all
qed

theorem missing_answer_rejects_witness:
  "calls rt_at_fetch 0 = Some AwaitFetch \<and>
   results (rt_on_response 0
      \<lparr>ok = True, status = 200, statusText = ''OK'',
        json_body = Inr (JObj [(''code'', JNum 0), (''msg'', JStr ''success'')])\<rparr>
      rt_at_fetch) 0 = Some (Inl NoSdpAnswer) \<and>
   answer_of (JObj [(''code'', JNum 0), (''data'', JObj [(''sdp'', JStr ''v=0 a'')])]) =
     Some (JStr ''v=0 a'')"
  using missing_answer_rejects [of rt_at_fetch 0
      "\<lparr>ok = True, status = 200, statusText = ''OK'',
        json_body = Inr (JObj [(''code'', JNum 0), (''msg'', JStr ''success'')])\<rparr>"
      "JObj [(''code'', JNum 0), (''msg'', JStr ''success'')]"]
    missing_answer_rejects [of rt_at_fetch 0
      "\<lparr>ok = True, status = 200, statusText = ''OK'',
        json_body = Inr (JObj [(''code'', JNum 0), (''data'', JObj [(''sdp'', JStr ''v=0 a'')])])\<rparr>"
      "JObj [(''code'', JNum 0), (''data'', JObj [(''sdp'', JStr ''v=0 a'')])]"]
    rt_at_fetch_calls
  by simp

section \<open>C9: only \<open>code === 0\<close> lets the handshake continue\<close>

text \<open>
  Claim C9. When the response to a suspended \<open>play\<close> has a parsed body whose \<open>code\<close> is
  absent or is anything but the number 0, \<open>play\<close> rejects, \<open>onError\<close> is invoked and
  \<open>setRemoteDescription\<close> is not called. Conversely, \<open>setRemoteDescription\<close> is called
  only for a success status and a body whose \<open>code\<close> is the number 0.
\<close>

theorem only_code_zero_continues:
  assumes "calls w c = Some AwaitFetch"
  shows "(\<forall>result. json_body r = Inr result \<and> get_prop result ''code'' \<noteq> Some (JNum 0) \<longrightarrow>
            (\<exists>e. results (rt_on_response c r w) c = Some (Inl e) \<and>
                 callbacks (rt_on_response c r w) = callbacks w @ [OnError e]) \<and>
            remote_applied (rt_on_response c r w) = remote_applied w \<and>
            peerConnection (rt_on_response c r w) = None) \<and>
         (remote_applied (rt_on_response c r w) \<noteq> remote_applied w \<longrightarrow>
            ok r \<and> (\<exists>result. json_body r = Inr result \<and>
                             get_prop result ''code'' = Some (JNum 0)))"
proof (intro conjI impI allI)
  fix result
  assume a: "json_body r = Inr result \<and> get_prop result ''code'' \<noteq> Some (JNum 0)"
  then obtain e where chk: "rt_check_result result = Inl e"
    using check_result_code by blast
  define e' where "e' = (if ok r then e else ServerReturned (status r) (statusText r))"
  have eq: "rt_on_response c r w = rt_fail c e' w"
    using a by (simp add: rt_on_response_eq [OF assms] chk e'_def)
  show "\<exists>e. results (rt_on_response c r w) c = Some (Inl e) \<and>
            callbacks (rt_on_response c r w) = callbacks w @ [OnError e]"
    unfolding eq by simp
  show "remote_applied (rt_on_response c r w) = remote_applied w"
    and "peerConnection (rt_on_response c r w) = None"
    unfolding eq by simp_all
next
  assume ch: "remote_applied (rt_on_response c r w) \<noteq> remote_applied w"
  then show "ok r"
    by (auto simp: rt_on_response_eq [OF assms] split: if_splits)
  from ch show "\<exists>result. json_body r = Inr result \<and> get_prop result ''code'' = Some (JNum 0)"
    by (auto simp: rt_on_response_eq [OF assms] check_result_Inr
         split: if_splits sum.splits option.splits)
qed

theorem only_code_zero_continues_witness:
  "calls rt_at_fetch 0 = Some AwaitFetch \<and>
   results (rt_on_response 0
      \<lparr>ok = True, status = 200, statusText = ''OK'',
        json_body = Inr (JObj [(''code'', JStr ''0''), (''sdp'', JStr ''v=0 a'')])\<rparr>
      rt_at_fetch) 0 = Some (Inl (ZLMediaKitError (JStr ''Unknown error''))) \<and>
   remote_applied (rt_on_response 0
      \<lparr>ok = True, status = 200, statusText = ''OK'',
        json_body = Inr (JObj [(''code'', JStr ''0''), (''sdp'', JStr ''v=0 a'')])\<rparr>
      rt_at_fetch) = [] \<and>
   remote_applied (rt_on_response 0
      \<lparr>ok = True, status = 200, statusText = ''OK'',
        json_body = Inr (JObj [(''code'', JNum 0), (''sdp'', JStr ''v=0 a'')])\<rparr>
      rt_at_fetch) = [(1, JStr ''v=0 a'')]"
proof -
  have a: "results (rt_on_response 0
      \<lparr>ok = True, status = 200, statusText = ''OK'',
        json_body = Inr (JObj [(''code'', JStr ''0''), (''sdp'', JStr ''v=0 a'')])\<rparr>
      rt_at_fetch) 0 = Some (Inl (ZLMediaKitError (JStr ''Unknown error'')))"
    unfolding rt_on_response_eq [OF rt_at_fetch_calls]
    by (simp add: rt_check_result_def msg_or_default_def)
  have b: "remote_applied (rt_on_response 0
      \<lparr>ok = True, status = 200, statusText = ''OK'',
        json_body = Inr (JObj [(''code'', JNum 0), (''sdp'', JStr ''v=0 a'')])\<rparr>
      rt_at_fetch) = [(1, JStr ''v=0 a'')]"
    unfolding rt_on_response_eq [OF rt_at_fetch_calls]
    by (simp add: rt_check_result_def answer_of_def js_or_def rt_at_fetch_state)
       (simp add: rt_eval)
  show ?thesis
    using only_code_zero_continues [OF rt_at_fetch_calls, of
      "\<lparr>ok = True, status = 200, statusText = ''OK'',
        json_body = Inr (JObj [(''code'', JStr ''0''), (''sdp'', JStr ''v=0 a'')])\<rparr>"]
      a b rt_at_fetch_calls rt_at_fetch_state(5)
    by simp
qed

section \<open>C8: the signaling request\<close>

lemma rt_send_offer_request:
  assumes "current_conn w = Some cn" and "localDescription cn = Some sdp"
  shows "requests (rt_send_offer c url w) = requests w @ [signaling_request w url sdp]"
    and "calls (rt_send_offer c url w) c = Some AwaitFetch"
  using assms by (simp_all add: rt_send_offer_def)

lemma rt_play_to_fetch:
  assumes "url \<noteq> []"
  shows "requests (rt_run [RtPlay url None, RtOfferSettled (fresh w) (Inr offer),
             RtLocalSettled (fresh w) None,
             RtGatheringChange (Suc (fresh w)) GatherComplete] w) =
         requests w @ [signaling_request w url offer]"
  using assms by (simp add: rt_eval)

text \<open>
  Claim C8, as stated, fails on the header set: the object passed to \<open>fetch\<close> has a
  fourth header, \<open>User-Agent\<close> (line 191).
\<close>

theorem header_set_counterexample:
  "map (\<lambda>q. map fst (req_headers q)) (requests rt_at_fetch) =
     [[''Content-Type'', ''Origin'', ''Accept'', ''User-Agent'']] \<and>
   map (\<lambda>q. map_of (req_headers q) ''User-Agent'') (requests rt_at_fetch) =
     [Some ''Mozilla/5.0 (compatible; WebRTCPlayer)'']"
  unfolding rt_at_fetch_state(2) by simp

text \<open>
  Claim C8, amended. The request is a \<open>POST\<close> to the URL given to \<open>play\<close>; its body is
  the \<open>sdp\<close> of the local description as it is when the ICE wait ends, as raw text;
  its headers are \<open>Content-Type\<close>, \<open>Origin\<close> (\<open>window.location.origin\<close>, or
  \<open>https://webrtc-client.local\<close> when that is empty), \<open>Accept\<close> and \<open>User-Agent\<close>,
  with the values of lines 188-191.
\<close>

theorem signaling_request_is_post:
  "(url \<noteq> [] \<longrightarrow>
      requests (rt_run [RtPlay url None, RtOfferSettled (fresh w) (Inr offer),
                  RtLocalSettled (fresh w) None,
                  RtGatheringChange (Suc (fresh w)) GatherComplete] w) =
      requests w @
        [\<lparr>req_method = ''POST'', req_url = url,
          req_headers =
            [(''Content-Type'', ''text/plain;charset=UTF-8''),
             (''Origin'', if location_origin w \<noteq> [] then location_origin w
                          else ''https://webrtc-client.local''),
             (''Accept'', ''application/json, text/plain, */*''),
             (''User-Agent'', ''Mozilla/5.0 (compatible; WebRTCPlayer)'')],
          req_body = offer\<rparr>]) \<and>
   (\<forall>cn sdp. current_conn w = Some cn \<and> localDescription cn = Some sdp \<longrightarrow>
      requests (rt_send_offer c url w) =
      requests w @
        [\<lparr>req_method = ''POST'', req_url = url,
          req_headers =
            [(''Content-Type'', ''text/plain;charset=UTF-8''),
             (''Origin'', if location_origin w \<noteq> [] then location_origin w
                          else ''https://webrtc-client.local''),
             (''Accept'', ''application/json, text/plain, */*''),
             (''User-Agent'', ''Mozilla/5.0 (compatible; WebRTCPlayer)'')],
          req_body = sdp\<rparr>])"
  using rt_play_to_fetch [of url w offer] rt_send_offer_request(1) [of w _ _ c url]
  by (simp add: signaling_request_def)

theorem signaling_request_is_post_witness:
  "requests rt_at_fetch =
     [\<lparr>req_method = ''POST'', req_url = ''http://zlm/rtc'',
       req_headers = [(''Content-Type'', ''text/plain;charset=UTF-8''),
          (''Origin'', ''http://page''),
          (''Accept'', ''application/json, text/plain, */*''),
          (''User-Agent'', ''Mozilla/5.0 (compatible; WebRTCPlayer)'')],
       req_body = ''v=0''\<rparr>]"
  using signaling_request_is_post [of "''http://zlm/rtc''" "rt_init True ''http://page''" "''v=0''"]
  by (simp add: rt_run_def rt_init_def)

section \<open>Counting reconnections\<close>

lemma pg_on_error_retry:
  assumes "player w = Some p" and "players w p = Some (Some cfg)"
    and "reconnectAttempts w < maxReconnectAttempts w"
  shows "pg_on_error NETWORK_ERROR d w =
     w\<lparr>pg_callbacks := pg_callbacks w @ [OnError (PlayerError NETWORK_ERROR d)],
       reconnectAttempts := Suc (reconnectAttempts w),
       pg_timeouts := pg_timeouts w @
         [(pg_fresh w, pg_now w + 2000, Reconnect (config_url cfg) (config_type cfg))],
       scheduled := scheduled w @
         [(pg_fresh w, pg_now w + 2000, Reconnect (config_url cfg) (config_type cfg))],
       pg_fresh := Suc (pg_fresh w)\<rparr>"
  using assms by (simp add: pg_on_error_def Let_def)

lemma pg_on_error_no_config:
  assumes "player w = Some p" and "players w p = Some None"
    and "reconnectAttempts w < maxReconnectAttempts w"
  shows "pg_on_error NETWORK_ERROR d w =
     w\<lparr>pg_callbacks := pg_callbacks w @ [OnError (PlayerError NETWORK_ERROR d)],
       reconnectAttempts := Suc (reconnectAttempts w)\<rparr>"
  using assms by (simp add: pg_on_error_def Let_def)

lemma pg_on_error_surface:
  assumes "et \<noteq> NETWORK_ERROR \<or> maxReconnectAttempts w \<le> reconnectAttempts w"
  shows "pg_on_error et d w =
     w\<lparr>pg_callbacks := pg_callbacks w @ [OnError (PlayerError et d)]\<rparr>"
  using assms by (auto simp: pg_on_error_def Let_def)

lemma reconnects_simps [simp]:
  "reconnects (pg_stop w) = reconnects w"
  "reconnects (pg_fail c e w) = reconnects w"
  "reconnects (w\<lparr>pg_now := n\<rparr>) = reconnects w"
  "reconnects (w\<lparr>pg_timeouts := ts\<rparr>) = reconnects w"
  "reconnects (pg_on_playing w) = reconnects w"
  "reconnects (pg_tick i w) = reconnects w"
  "reconnects (pg_startStatsMonitoring w) = reconnects w"
  by (simp_all add: reconnects_def pg_on_playing_def pg_tick_def pg_startStatsMonitoring_def
       split: option.splits)

lemma attempts_simps [simp]:
  "reconnectAttempts (pg_tick i w) = reconnectAttempts w"
  "reconnectAttempts (pg_startStatsMonitoring w) = reconnectAttempts w"
  "scheduled (pg_startStatsMonitoring w) = scheduled w"
  by (simp_all add: pg_tick_def pg_startStatsMonitoring_def split: option.splits)

lemma pg_play_counts [simp]:
  "reconnectAttempts (pg_play url type create w) = reconnectAttempts w"
  "reconnects (pg_play url type create w) = reconnects w"
  by (simp_all add: pg_play_def Let_def reconnects_def split: sum.splits)

lemma pg_video_play_settled_counts [simp]:
  "reconnectAttempts (pg_video_play_settled c outcome w) = reconnectAttempts w"
  "reconnects (pg_video_play_settled c outcome w) = reconnects w"
  by (simp_all add: pg_video_play_settled_def Let_def reconnects_def
       split: option.splits pg_cont.splits)

lemma pg_fire_counts [simp]:
  "reconnectAttempts (pg_fire t create w) = reconnectAttempts w"
  "reconnects (pg_fire t create w) = reconnects w"
  by (simp_all add: pg_fire_def Let_def split: option.splits pg_timeout.splits)

text \<open>
  The counter does not depend on what the player holds: it is the number of network-class
  errors that reached the handler, capped at 3. A reconnection is scheduled for at most
  each counted error.
\<close>

lemma pg_error_counts:
  assumes "pg_inv w"
  shows "reconnectAttempts (pg_step (PgError p et d) w) =
           min 3 (reconnectAttempts w + (if reaches_handler w (PgError p et d) then 1 else 0))"
    and "reconnects (pg_step (PgError p et d) w) \<le>
           reconnects w + (reconnectAttempts (pg_step (PgError p et d) w) - reconnectAttempts w)"
proof -
  have both: "reconnectAttempts (pg_step (PgError p et d) w) =
           min 3 (reconnectAttempts w + (if reaches_handler w (PgError p et d) then 1 else 0)) \<and>
         reconnects (pg_step (PgError p et d) w) \<le>
           reconnects w + (reconnectAttempts (pg_step (PgError p et d) w) - reconnectAttempts w)"
  proof (cases "players w p")
    case None
    with assms show ?thesis by (simp add: pg_inv_def)
  next
    case (Some oc)
    with assms have pl: "player w = Some p" by (auto simp: pg_inv_def)
    from assms have mx: "maxReconnectAttempts w = 3" and le: "reconnectAttempts w \<le> 3"
      by (simp_all add: pg_inv_def)
    show ?thesis
    proof (cases "et = NETWORK_ERROR \<and> reconnectAttempts w < 3")
      case True
      show ?thesis
      proof (cases oc)
        case None
        with True Some pl mx show ?thesis
          by (simp add: pg_on_error_no_config [OF pl] reconnects_def)
      next
        case (Some cfg)
        with True \<open>players w p = Some oc\<close> pl mx show ?thesis
          by (simp add: pg_on_error_retry [OF pl] reconnects_def)
      qed
    next
      case False
      then have "et \<noteq> NETWORK_ERROR \<or> maxReconnectAttempts w \<le> reconnectAttempts w"
        using mx by auto
      from pg_on_error_surface [OF this] False le Some show ?thesis
        by (auto simp: reconnects_def)
    qed
  qed
  from both show "reconnectAttempts (pg_step (PgError p et d) w) =
           min 3 (reconnectAttempts w + (if reaches_handler w (PgError p et d) then 1 else 0))"
    by blast
  from both show "reconnects (pg_step (PgError p et d) w) \<le>
           reconnects w + (reconnectAttempts (pg_step (PgError p et d) w) - reconnectAttempts w)"
    by blast
qed

lemma pg_step_counts:
  assumes "pg_inv w" and "ev \<noteq> PgPlaying"
  shows "reconnectAttempts (pg_step ev w) =
           min 3 (reconnectAttempts w + (if reaches_handler w ev then 1 else 0))"
    and "reconnects (pg_step ev w) \<le>
           reconnects w + (reconnectAttempts (pg_step ev w) - reconnectAttempts w)"
proof -
  from assms(1) have le: "reconnectAttempts w \<le> 3" by (simp add: pg_inv_def)
  show "reconnectAttempts (pg_step ev w) =
           min 3 (reconnectAttempts w + (if reaches_handler w ev then 1 else 0))"
    using assms(2) le pg_error_counts(1) [OF assms(1)]
    by (cases ev) (simp_all del: pg_step.simps(4) reaches_handler.simps(1))
  show "reconnects (pg_step ev w) \<le>
           reconnects w + (reconnectAttempts (pg_step ev w) - reconnectAttempts w)"
    using assms(2) pg_error_counts(2) [OF assms(1)]
    by (cases ev) (simp_all del: pg_step.simps(4))
qed

lemma pg_run_counts:
  assumes "pg_inv w" and "PgPlaying \<notin> set evs"
  shows "reconnectAttempts (pg_run evs w) = min 3 (reconnectAttempts w + delivered evs w) \<and>
         reconnects (pg_run evs w) \<le>
           reconnects w + (reconnectAttempts (pg_run evs w) - reconnectAttempts w)"
  using assms
proof (induction evs arbitrary: w)
  case Nil
  then show ?case by (simp add: pg_run_def pg_inv_def)
next
  case (Cons ev evs)
  from Cons.prems have ne: "ev \<noteq> PgPlaying" and rest: "PgPlaying \<notin> set evs" by auto
  have inv': "pg_inv (pg_step ev w)" using Cons.prems(1) by (rule pg_inv_step)
  note ih = Cons.IH [OF inv' rest]
  note st = pg_step_counts [OF Cons.prems(1) ne]
  have run: "pg_run (ev # evs) w = pg_run evs (pg_step ev w)" by (simp add: pg_run_def)
  from Cons.prems(1) have le: "reconnectAttempts w \<le> 3" by (simp add: pg_inv_def)
  show ?case
    unfolding run using ih st le by (auto simp: min_def split: if_splits)
qed

lemmas pg_eval =
  pg_run_def pg_init_def pg_play_def pg_stop_def pg_fail_def pg_video_play_settled_def
  pg_on_error_def pg_on_playing_def pg_fire_def pg_tick_def pg_startStatsMonitoring_def
  pg_sample_of_def or_zero_def reconnects_def Let_def

section \<open>C2: bounded automatic reconnection\<close>

lemma pg_played_state:
  "player pg_played = Some 1" "players pg_played 1 = Some None"
  "pg_timeouts pg_played = [(2, 5000, Watchdog ''http://zlm/live.flv'')]"
  "created pg_played = [(''flv'', ''http://zlm/live.flv'')]"
  "reconnectAttempts pg_played = 0"
  by (simp_all add: pg_eval)

text \<open>
  Claim C2 says that a network-class error below the maximum schedules a full stop and
  replay two seconds later, three times for a sustained failure. The handler means to do
  so (lines 221-236) and misses: it takes the URL of the replay from
  \<open>this.player._config.url\<close>, although \<open>play\<close> gave the URL to \<open>createPlayer\<close> in its
  first argument. With a player object that has no \<open>_config\<close>, the first network error
  reaches \<open>onError\<close>, raises the counter to 1 and sets no timeout; three errors leave
  the counter at 3 and no reconnection scheduled, the only pending timeout being the
  watchdog of \<open>play\<close>, and \<open>createPlayer\<close> has been called once. With a player object
  whose \<open>_config\<close> has no \<open>url\<close>, the reconnection is scheduled and its callback stops
  the session and calls \<open>play\<close> without a URL: that call (4) rejects, no player is
  created, and the session stays stopped.
\<close>

theorem reconnection_not_scheduled:
  "reconnectAttempts (pg_run [PgError 1 NETWORK_ERROR ''Exception''] pg_played) = 1 \<and>
   pg_timeouts (pg_run [PgError 1 NETWORK_ERROR ''Exception''] pg_played) =
     [(2, 5000, Watchdog ''http://zlm/live.flv'')] \<and>
   pg_callbacks (pg_run [PgError 1 NETWORK_ERROR ''Exception''] pg_played) =
     [OnDisconnected, OnError (PlayerError NETWORK_ERROR ''Exception'')] \<and>
   reconnectAttempts (pg_run pg_three_errors pg_played) = 3 \<and>
   reconnects (pg_run pg_three_errors pg_played) = 0 \<and>
   pg_timeouts (pg_run pg_three_errors pg_played) =
     [(2, 5000, Watchdog ''http://zlm/live.flv'')] \<and>
   created (pg_run pg_three_errors pg_played) = [(''flv'', ''http://zlm/live.flv'')] \<and>
   pg_results pg_replayed 4 = Some (Inl StreamUrlRequired) \<and>
   player pg_replayed = None \<and>
   created pg_replayed = [(''flv'', ''http://zlm/live.flv'')]"
  by (simp add: pg_eval)

section \<open>C7: \<open>playing\<close> resets the counter\<close>

lemma pg_on_playing_resets:
  assumes "pg_inv w"
  shows "reconnectAttempts (pg_on_playing w) = 0"
  using assms by (auto simp: pg_on_playing_def pg_inv_def)

text \<open>
  Claim C7 says that \<open>playing\<close> resets the counter, so that a later network error is
  retried again. The reset is there (line 247), and in every state the session can reach
  the counter is 0 after \<open>playing\<close>. The retry is not, by the defect of the error
  handler shown for C2: with a player object that has no \<open>_config\<close>, after three network
  errors and a \<open>playing\<close> event the next network error raises the counter from 0 to 1
  and schedules nothing.
\<close>

theorem playing_then_no_retry:
  "reconnectAttempts (pg_run pg_three_errors pg_played) = 3 \<and>
   reconnectAttempts (pg_run (pg_three_errors @ [PgPlaying]) pg_played) = 0 \<and>
   reconnectAttempts
     (pg_run (pg_three_errors @ [PgPlaying, PgError 1 NETWORK_ERROR ''Exception''])
        pg_played) = 1 \<and>
   reconnects
     (pg_run (pg_three_errors @ [PgPlaying, PgError 1 NETWORK_ERROR ''Exception''])
        pg_played) = 0 \<and>
   pg_timeouts
     (pg_run (pg_three_errors @ [PgPlaying, PgError 1 NETWORK_ERROR ''Exception''])
        pg_played) = [(2, 5000, Watchdog ''http://zlm/live.flv'')]"
  by (simp add: pg_eval)

section \<open>C10: at most one stats timer\<close>

lemma rt_startStatsMonitoring_guard:
  "statsInterval w \<noteq> None \<Longrightarrow> rt_startStatsMonitoring w = w"
  by (auto simp: rt_startStatsMonitoring_def)

lemma pg_startStatsMonitoring_guard:
  "pg_statsInterval v \<noteq> None \<Longrightarrow> pg_startStatsMonitoring v = v"
  by (auto simp: pg_startStatsMonitoring_def)

lemma stop_clears_timer:
  "intervals (rt_stop w) = intervals w - set_option (statsInterval w)"
  "pg_intervals (pg_stop v) = pg_intervals v - set_option (pg_statsInterval v)"
  by (simp_all split: option.splits)

text \<open>
  Claim C10. In both classes \<open>_startStatsMonitoring\<close> does nothing when a stats timer
  exists, and \<open>stop\<close> cancels the timer and clears the field. So in every state a
  session can reach, whatever the connection or the video element reports and however
  often, the live interval timers are exactly the one the field names: at most one.
\<close>

theorem single_stats_timer:
  "(statsInterval w \<noteq> None \<longrightarrow> rt_startStatsMonitoring w = w) \<and>
   (pg_statsInterval v \<noteq> None \<longrightarrow> pg_startStatsMonitoring v = v) \<and>
   intervals (rt_stop w) = intervals w - set_option (statsInterval w) \<and>
   statsInterval (rt_stop w) = None \<and>
   pg_intervals (pg_stop v) = pg_intervals v - set_option (pg_statsInterval v) \<and>
   pg_statsInterval (pg_stop v) = None \<and>
   intervals (rt_run evs (rt_init sc origin)) =
     set_option (statsInterval (rt_run evs (rt_init sc origin))) \<and>
   card (intervals (rt_run evs (rt_init sc origin))) \<le> 1 \<and>
   pg_intervals (pg_run pevs (pg_init psc st)) =
     set_option (pg_statsInterval (pg_run pevs (pg_init psc st))) \<and>
   card (pg_intervals (pg_run pevs (pg_init psc st))) \<le> 1"
proof -
  have rt: "rt_inv (rt_run evs (rt_init sc origin))"
    by (rule rt_inv_run) (rule rt_inv_init)
  have pg: "pg_inv (pg_run pevs (pg_init psc st))"
    by (rule pg_inv_run) (rule pg_inv_init)
  from rt have a: "intervals (rt_run evs (rt_init sc origin)) =
      set_option (statsInterval (rt_run evs (rt_init sc origin)))"
    by (simp add: rt_inv_def)
  from pg have b: "pg_intervals (pg_run pevs (pg_init psc st)) =
      set_option (pg_statsInterval (pg_run pevs (pg_init psc st)))"
    by (simp add: pg_inv_def)
  have c: "card (intervals (rt_run evs (rt_init sc origin))) \<le> 1"
    "card (pg_intervals (pg_run pevs (pg_init psc st))) \<le> 1"
    unfolding a b by (simp_all add: card_set_option)
  from a b c show ?thesis
    using rt_startStatsMonitoring_guard [of w] pg_startStatsMonitoring_guard [of v]
      stop_clears_timer(1) [of w] stop_clears_timer(2) [of v]
    by simp
qed

text \<open>The connection reports \<open>connected\<close> twice: one timer, two \<open>onConnected\<close>.\<close>

lemma connected_twice:
  "intervals (rt_run [RtPlay ''http://zlm/rtc'' None, RtOfferSettled 0 (Inr ''v=0''),
       RtLocalSettled 0 None, RtGatheringChange 1 GatherComplete,
       RtConnectionChange 1 IceConnected, RtConnectionChange 1 IceConnected]
      (rt_init True ''http://page'')) = {3}"
  "callbacks (rt_run [RtPlay ''http://zlm/rtc'' None, RtOfferSettled 0 (Inr ''v=0''),
       RtLocalSettled 0 None, RtGatheringChange 1 GatherComplete,
       RtConnectionChange 1 IceConnected, RtConnectionChange 1 IceConnected]
      (rt_init True ''http://page'')) = [OnConnected, OnConnected]"
  by (simp_all add: rt_eval)

theorem single_stats_timer_witness:
  "intervals (rt_run [RtPlay ''http://zlm/rtc'' None, RtOfferSettled 0 (Inr ''v=0''),
       RtLocalSettled 0 None, RtGatheringChange 1 GatherComplete,
       RtConnectionChange 1 IceConnected, RtConnectionChange 1 IceConnected]
      (rt_init True ''http://page'')) = {3} \<and>
   callbacks (rt_run [RtPlay ''http://zlm/rtc'' None, RtOfferSettled 0 (Inr ''v=0''),
       RtLocalSettled 0 None, RtGatheringChange 1 GatherComplete,
       RtConnectionChange 1 IceConnected, RtConnectionChange 1 IceConnected]
      (rt_init True ''http://page'')) = [OnConnected, OnConnected] \<and>
   card (intervals (rt_run [RtPlay ''http://zlm/rtc'' None, RtOfferSettled 0 (Inr ''v=0''),
       RtLocalSettled 0 None, RtGatheringChange 1 GatherComplete,
       RtConnectionChange 1 IceConnected, RtConnectionChange 1 IceConnected]
      (rt_init True ''http://page''))) \<le> 1"
  using single_stats_timer [of "rt_init True ''http://page''" "pg_init True ''flv''"
      "[RtPlay ''http://zlm/rtc'' None, RtOfferSettled 0 (Inr ''v=0''),
       RtLocalSettled 0 None, RtGatheringChange 1 GatherComplete,
       RtConnectionChange 1 IceConnected, RtConnectionChange 1 IceConnected]"
      True "''http://page''" "[]" True "''flv''", THEN conjunct2, THEN conjunct2,
      THEN conjunct2, THEN conjunct2, THEN conjunct2, THEN conjunct2, THEN conjunct2,
      THEN conjunct1]
    connected_twice
  by blast

section \<open>C3: the wait for ICE gathering\<close>

subsection \<open>A wait that is not disturbed\<close>

lemma rt_waiting_state:
  "calls rt_waiting 0 = Some (AwaitIceGathering ''http://zlm/rtc'')"
  "timeouts rt_waiting = [(2, 5000, 0)]"
  "peerConnection rt_waiting = Some 1"
  "now rt_waiting = 0"
  by (simp_all add: rt_eval)

lemma rt_stopped_waiting_state:
  "calls rt_stopped_waiting 0 = Some (AwaitIceGathering ''http://zlm/rtc'')"
  "results rt_stopped_waiting 0 = None"
  "timeouts rt_stopped_waiting = []"
  "requests rt_stopped_waiting = []"
  "now rt_stopped_waiting = 5000"
  "conns rt_stopped_waiting = Map.empty"
  "fresh rt_stopped_waiting = 3"
  by (simp_all add: rt_eval rt_stop_def)

lemma current_conn_frame [simp]:
  "current_conn (w\<lparr>timeouts := ts\<rparr>) = current_conn w"
  "current_conn (w\<lparr>calls := cs\<rparr>) = current_conn w"
  "current_conn (w\<lparr>now := n\<rparr>) = current_conn w"
  "current_conn (w\<lparr>fresh := f\<rparr>) = current_conn w"
  "current_conn (w\<lparr>requests := rq\<rparr>) = current_conn w"
  "current_conn (w\<lparr>conns := (conns w)(h \<mapsto> x)\<rparr>) =
     (if peerConnection w = Some h then Some x else current_conn w)"
  by (auto simp: current_conn_def split: option.splits)

lemma remove_listener_fields [simp]:
  "calls (remove_listener c w) = calls w"
  "requests (remove_listener c w) = requests w"
  "location_origin (remove_listener c w) = location_origin w"
  "peerConnection (remove_listener c w) = peerConnection w"
  "timeouts (remove_listener c w) = timeouts w"
  "fresh (remove_listener c w) = fresh w"
  "results (remove_listener c w) = results w"
  by (simp_all add: remove_listener_def split: option.splits)

lemma remove_listener_current:
  "current_conn w = Some cn \<Longrightarrow>
   current_conn (remove_listener c w) =
     Some (cn\<lparr>gatherListeners := removeAll c (gatherListeners cn)\<rparr>)"
  by (auto simp: current_conn_def remove_listener_def split: option.splits)

lemma resolve_proceeds:
  assumes "calls w c = Some (AwaitIceGathering url)"
    and "current_conn w = Some cn" and "localDescription cn = Some sdp"
  shows "calls (rt_resolve_ice c (remove_listener c w)) c = Some AwaitFetch"
    and "requests (rt_resolve_ice c (remove_listener c w)) =
           requests w @ [signaling_request w url sdp]"
  using assms remove_listener_current [OF assms(2), of c]
  by (simp_all add: rt_resolve_ice_def rt_send_offer_def signaling_request_def)

lemma wait_starts:
  assumes "current_conn w = Some cn"
  shows "iceGatheringState cn = GatherComplete \<Longrightarrow>
           rt_waitForIceGathering c url w = rt_send_offer c url w"
    and "iceGatheringState cn \<noteq> GatherComplete \<Longrightarrow>
           timeouts (rt_waitForIceGathering c url w) = timeouts w @ [(fresh w, now w + 5000, c)] \<and>
           calls (rt_waitForIceGathering c url w) c = Some (AwaitIceGathering url)"
  using assms by (simp_all add: rt_waitForIceGathering_def)

lemma checkState_resolves:
  assumes "calls w c = Some (AwaitIceGathering url)"
    and "current_conn w = Some cn" and "localDescription cn = Some sdp"
    and "iceGatheringState cn = GatherComplete"
  shows "calls (rt_checkState c w) c = Some AwaitFetch"
    and "requests (rt_checkState c w) = requests w @ [signaling_request w url sdp]"
  using resolve_proceeds [OF assms(1-3)] assms(2,4) by (simp_all add: rt_checkState_def)

lemma timeout_resolves:
  assumes "calls w c = Some (AwaitIceGathering url)"
    and "current_conn w = Some cn" and "localDescription cn = Some sdp"
    and "iceGatheringState cn \<noteq> GatherComplete"
    and "find (\<lambda>(i, due, c). i = t) (timeouts w) = Some (t, due, c)" and "due \<le> now w"
  shows "calls (rt_fire t w) c = Some AwaitFetch"
    and "requests (rt_fire t w) = requests w @ [signaling_request w url sdp]"
proof -
  let ?w = "w\<lparr>timeouts := filter (\<lambda>(i, due, c). i \<noteq> t) (timeouts w)\<rparr>"
  have f: "rt_fire t w = rt_resolve_ice c (remove_listener c ?w)"
    using assms(2,4,5,6)
    by (auto simp: rt_fire_def rt_ice_timeout_def current_conn_def split: option.splits)
  have c: "calls ?w c = Some (AwaitIceGathering url)" "current_conn ?w = Some cn"
    using assms(1,2) by simp_all
  from resolve_proceeds [OF c assms(3)]
  show "calls (rt_fire t w) c = Some AwaitFetch"
    and "requests (rt_fire t w) = requests w @ [signaling_request w url sdp]"
    unfolding f by (simp_all add: signaling_request_def)
qed

lemma timeout_not_early:
  assumes "find (\<lambda>(i, due, c). i = t) (timeouts w) = Some (t, due, c)" and "now w < due"
  shows "rt_fire t w = w"
  using assms by (simp add: rt_fire_def)

lemma gathering_complete_resolves:
  assumes "calls w c = Some (AwaitIceGathering url)"
    and "peerConnection w = Some h" and "conns w h = Some cn"
    and "localDescription cn = Some sdp" and "gatherListeners cn = [c]"
  shows "calls (rt_gathering_change h GatherComplete w) c = Some AwaitFetch"
    and "requests (rt_gathering_change h GatherComplete w) =
           requests w @ [signaling_request w url sdp]"
proof -
  let ?w = "w\<lparr>conns := (conns w)(h \<mapsto> cn\<lparr>iceGatheringState := GatherComplete\<rparr>)\<rparr>"
  have g: "rt_gathering_change h GatherComplete w = rt_checkState c ?w"
    using assms(3,5) by (simp add: rt_gathering_change_def)
  have c: "calls ?w c = Some (AwaitIceGathering url)"
    "current_conn ?w = Some (cn\<lparr>iceGatheringState := GatherComplete\<rparr>)"
    using assms(1,2) by simp_all
  from checkState_resolves [OF c] assms(4)
  show "calls (rt_gathering_change h GatherComplete w) c = Some AwaitFetch"
    and "requests (rt_gathering_change h GatherComplete w) =
           requests w @ [signaling_request w url sdp]"
    unfolding g by (simp_all add: signaling_request_def)
qed

text \<open>
  While \<open>this.peerConnection\<close> names an open connection with a local description: if
  gathering is complete when the wait starts, the handshake goes on at once, with no
  timer; otherwise one timeout is set, due 5000 ms later. A waiting call goes on to send
  the offer, with the SDP the connection holds at that moment, as soon as its
  \<open>checkState\<close> runs with gathering complete, and when its timeout runs with gathering
  incomplete; the timeout does nothing before it is due.
\<close>

lemma ice_wait_bounded:
  assumes "current_conn w = Some cn" and "localDescription cn = Some sdp"
  shows
   "(iceGatheringState cn = GatherComplete \<longrightarrow>
       rt_waitForIceGathering c url w = rt_send_offer c url w \<and>
       calls (rt_waitForIceGathering c url w) c = Some AwaitFetch) \<and>
    (iceGatheringState cn \<noteq> GatherComplete \<longrightarrow>
       timeouts (rt_waitForIceGathering c url w) = timeouts w @ [(fresh w, now w + 5000, c)] \<and>
       calls (rt_waitForIceGathering c url w) c = Some (AwaitIceGathering url)) \<and>
    (calls w c = Some (AwaitIceGathering url) \<longrightarrow>
       (iceGatheringState cn = GatherComplete \<longrightarrow>
          calls (rt_checkState c w) c = Some AwaitFetch \<and>
          requests (rt_checkState c w) = requests w @ [signaling_request w url sdp]) \<and>
       (\<forall>h. peerConnection w = Some h \<and> gatherListeners cn = [c] \<longrightarrow>
          calls (rt_gathering_change h GatherComplete w) c = Some AwaitFetch \<and>
          requests (rt_gathering_change h GatherComplete w) =
            requests w @ [signaling_request w url sdp]) \<and>
       (\<forall>t due. find (\<lambda>(i, due, c). i = t) (timeouts w) = Some (t, due, c) \<longrightarrow>
          (now w < due \<longrightarrow> rt_fire t w = w) \<and>
          (due \<le> now w \<and> iceGatheringState cn \<noteq> GatherComplete \<longrightarrow>
             calls (rt_fire t w) c = Some AwaitFetch \<and>
             requests (rt_fire t w) = requests w @ [signaling_request w url sdp])))"
proof (intro conjI impI allI)
  assume g: "iceGatheringState cn = GatherComplete"
  from wait_starts(1) [OF assms(1) g]
  show eq: "rt_waitForIceGathering c url w = rt_send_offer c url w" .
  show "calls (rt_waitForIceGathering c url w) c = Some AwaitFetch"
    unfolding eq using assms by (rule rt_send_offer_request(2))
next
  assume g: "iceGatheringState cn \<noteq> GatherComplete"
  from wait_starts(2) [OF assms(1) g, of c url]
  show "timeouts (rt_waitForIceGathering c url w) = timeouts w @ [(fresh w, now w + 5000, c)]"
    and "calls (rt_waitForIceGathering c url w) c = Some (AwaitIceGathering url)"
    by blast+
next
  assume a: "calls w c = Some (AwaitIceGathering url)"
    and g: "iceGatheringState cn = GatherComplete"
  from checkState_resolves [OF a assms g]
  show "calls (rt_checkState c w) c = Some AwaitFetch"
    and "requests (rt_checkState c w) = requests w @ [signaling_request w url sdp]"
    by blast+
next
  fix h
  assume a: "calls w c = Some (AwaitIceGathering url)"
    and h: "peerConnection w = Some h \<and> gatherListeners cn = [c]"
  with assms(1) have cn: "conns w h = Some cn" by (simp add: current_conn_def)
  from gathering_complete_resolves [OF a _ cn assms(2)] h
  show "calls (rt_gathering_change h GatherComplete w) c = Some AwaitFetch"
    and "requests (rt_gathering_change h GatherComplete w) =
           requests w @ [signaling_request w url sdp]"
    by blast+
next
  fix t due
  assume f: "find (\<lambda>(i, due, c). i = t) (timeouts w) = Some (t, due, c)"
    and e: "now w < due"
  then show "rt_fire t w = w" by (rule timeout_not_early)
next
  fix t due
  assume a: "calls w c = Some (AwaitIceGathering url)"
    and f: "find (\<lambda>(i, due, c). i = t) (timeouts w) = Some (t, due, c)"
    and d: "due \<le> now w \<and> iceGatheringState cn \<noteq> GatherComplete"
  from timeout_resolves [OF a assms _ f] d
  show "calls (rt_fire t w) c = Some AwaitFetch"
    and "requests (rt_fire t w) = requests w @ [signaling_request w url sdp]"
    by blast+
qed

text \<open>
  The timeout of the waiting session does nothing at 4999 ms; at 5000 ms, gathering still
  incomplete, it sends the offer.
\<close>

lemma ice_wait_bounded_example:
  "calls (rt_run [RtAdvance 5000, RtFire 2] rt_waiting) 0 = Some AwaitFetch \<and>
   rt_run [RtAdvance 4999, RtFire 2] rt_waiting = rt_run [RtAdvance 4999] rt_waiting"
proof -
  let ?cn = "\<lparr>iceConnectionState = IceNew, iceGatheringState = GatherNew,
              localDescription = Some ''v=0'', gatherListeners = [0]\<rparr>"
  have late: "current_conn (rt_run [RtAdvance 5000] rt_waiting) = Some ?cn"
    "calls (rt_run [RtAdvance 5000] rt_waiting) 0 = Some (AwaitIceGathering ''http://zlm/rtc'')"
    "find (\<lambda>(i, due, c). i = 2) (timeouts (rt_run [RtAdvance 5000] rt_waiting)) =
       Some (2, 5000, 0)"
    "now (rt_run [RtAdvance 5000] rt_waiting) = 5000"
    by (simp_all add: rt_eval)
  have early: "current_conn (rt_run [RtAdvance 4999] rt_waiting) = Some ?cn"
    "calls (rt_run [RtAdvance 4999] rt_waiting) 0 = Some (AwaitIceGathering ''http://zlm/rtc'')"
    "find (\<lambda>(i, due, c). i = 2) (timeouts (rt_run [RtAdvance 4999] rt_waiting)) =
       Some (2, 5000, 0)"
    "now (rt_run [RtAdvance 4999] rt_waiting) = 4999"
    by (simp_all add: rt_eval)
  have ld: "localDescription ?cn = Some ''v=0''" "iceGatheringState ?cn \<noteq> GatherComplete"
    by simp_all
  have a: "calls (rt_fire 2 (rt_run [RtAdvance 5000] rt_waiting)) 0 = Some AwaitFetch"
    using ice_wait_bounded [OF late(1) ld(1), of 0 "''http://zlm/rtc''"] late(2,3,4) ld(2)
    by simp
  have b: "rt_fire 2 (rt_run [RtAdvance 4999] rt_waiting) = rt_run [RtAdvance 4999] rt_waiting"
    using ice_wait_bounded [OF early(1) ld(1), of 0 "''http://zlm/rtc''"] early(2,3,4)
    by simp
  have r: "rt_run [RtAdvance 5000, RtFire 2] rt_waiting =
             rt_fire 2 (rt_run [RtAdvance 5000] rt_waiting)"
    "rt_run [RtAdvance 4999, RtFire 2] rt_waiting =
             rt_fire 2 (rt_run [RtAdvance 4999] rt_waiting)"
    by (simp_all add: rt_run_def)
  show ?thesis unfolding r using a b by simp
qed

subsection \<open>A wait that nothing can end\<close>


lemma stuck_stop: "rt_stuck c w \<Longrightarrow> rt_stuck c (rt_stop w)"
  by (auto simp: rt_stuck_def split: option.splits if_splits)

lemma stuck_fail: "rt_stuck c w \<Longrightarrow> c' \<noteq> c \<Longrightarrow> rt_stuck c (rt_fail c' e w)"
  by (auto simp: rt_stuck_def split: option.splits if_splits)

lemma stuck_send_offer:
  "rt_stuck c w \<Longrightarrow> c' \<noteq> c \<Longrightarrow> rt_stuck c (rt_send_offer c' url w)"
  by (auto simp: rt_send_offer_def stuck_fail split: option.splits)
     (auto simp: rt_stuck_def)

lemma stuck_play: "rt_stuck c w \<Longrightarrow> rt_stuck c (rt_play url ctor w)"
  by (auto simp: rt_stuck_def rt_play_def Let_def new_connection_def
      split: option.splits if_splits)

lemma stuck_offer_settled: "rt_stuck c w \<Longrightarrow> rt_stuck c (rt_offer_settled c' outcome w)"
proof (cases "c' = c")
  case True
  assume "rt_stuck c w"
  with True show ?thesis by (auto simp: rt_stuck_def rt_offer_settled_def)
next
  case False
  assume s: "rt_stuck c w"
  with False show ?thesis
    by (auto simp: rt_offer_settled_def stuck_fail split: option.splits rt_cont.splits sum.splits)
       (auto simp: rt_stuck_def)
qed

lemma stuck_remove_listener: "rt_stuck c w \<Longrightarrow> rt_stuck c (remove_listener c' w)"
  by (auto simp: rt_stuck_def remove_listener_def split: option.splits if_splits)

lemma stuck_add_listener:
  "rt_stuck c w \<Longrightarrow> c' \<noteq> c \<Longrightarrow> rt_stuck c (add_listener c' w)"
  by (auto simp: rt_stuck_def add_listener_def split: option.splits if_splits)

lemma stuck_set_local: "rt_stuck c w \<Longrightarrow> rt_stuck c (set_local h sdp w)"
  by (auto simp: rt_stuck_def set_local_def split: option.splits if_splits)

lemma stuck_resolve_ice:
  "rt_stuck c w \<Longrightarrow> c' \<noteq> c \<Longrightarrow> rt_stuck c (rt_resolve_ice c' w)"
  by (auto simp: rt_resolve_ice_def stuck_send_offer split: option.splits rt_cont.splits)

lemma stuck_checkState:
  "rt_stuck c w \<Longrightarrow> c' \<noteq> c \<Longrightarrow> rt_stuck c (rt_checkState c' w)"
  by (auto simp: rt_checkState_def stuck_resolve_ice stuck_remove_listener split: option.splits)

lemma stuck_ice_timeout:
  "rt_stuck c w \<Longrightarrow> c' \<noteq> c \<Longrightarrow> rt_stuck c (rt_ice_timeout c' w)"
  by (auto simp: rt_ice_timeout_def stuck_resolve_ice stuck_remove_listener split: option.splits)

lemma stuck_frame:
  "rt_stuck c w \<Longrightarrow> c' \<noteq> c \<Longrightarrow>
   rt_stuck c (w\<lparr>timeouts := timeouts w @ [(t, d, c')], fresh := Suc (fresh w),
                  calls := (calls w)(c' \<mapsto> k)\<rparr>)"
  "rt_stuck c w \<Longrightarrow> rt_stuck c (w\<lparr>timeouts := filter P (timeouts w)\<rparr>)"
  "rt_stuck c w \<Longrightarrow> rt_stuck c (w\<lparr>now := n\<rparr>)"
  "rt_stuck c w \<Longrightarrow> rt_stuck c (w\<lparr>pending_stats := p\<rparr>)"
  "rt_stuck c w \<Longrightarrow> rt_stuck c (w\<lparr>callbacks := cb\<rparr>)"
  "rt_stuck c w \<Longrightarrow> rt_stuck c (w\<lparr>statsContainer := sc\<rparr>)"
  "rt_stuck c w \<Longrightarrow> rt_stuck c (w\<lparr>srcObject := so, stream := sm\<rparr>)"
  "rt_stuck c w \<Longrightarrow> c' \<noteq> c \<Longrightarrow> rt_stuck c (w\<lparr>calls := (calls w)(c' \<mapsto> k)\<rparr>)"
  "rt_stuck c w \<Longrightarrow> c' \<noteq> c \<Longrightarrow>
   rt_stuck c (w\<lparr>remote_applied := ra, calls := (calls w)(c' \<mapsto> k)\<rparr>)"
  "rt_stuck c w \<Longrightarrow> c' \<noteq> c \<Longrightarrow>
   rt_stuck c (w\<lparr>calls := (calls w)(c' := None), results := (results w)(c' \<mapsto> r)\<rparr>)"
  by (auto simp: rt_stuck_def)

lemma add_listener_fields [simp]:
  "timeouts (add_listener c w) = timeouts w"
  "calls (add_listener c w) = calls w"
  "results (add_listener c w) = results w"
  by (simp_all add: add_listener_def split: option.splits)

lemma stuck_waitForIceGathering:
  assumes "rt_stuck c w" and "c' \<noteq> c"
  shows "rt_stuck c (rt_waitForIceGathering c' url w)"
proof -
  have "rt_stuck c ((add_listener c' w)
        \<lparr>timeouts := timeouts w @ [(fresh w, now w + 5000, c')],
         fresh := Suc (fresh w), calls := (calls w)(c' \<mapsto> AwaitIceGathering url)\<rparr>)"
    using stuck_frame(1) [where t = "fresh w" and d = "now w + 5000"
        and k = "AwaitIceGathering url", OF stuck_add_listener [OF assms] assms(2)]
    by simp
  then show ?thesis
    using assms by (auto simp: rt_waitForIceGathering_def stuck_fail stuck_send_offer
        split: option.splits)
qed

lemma stuck_local_settled: "rt_stuck c w \<Longrightarrow> rt_stuck c (rt_local_settled c' outcome w)"
proof (cases "c' = c")
  case True
  assume "rt_stuck c w"
  with True show ?thesis by (auto simp: rt_stuck_def rt_local_settled_def)
next
  case False
  assume "rt_stuck c w"
  with False show ?thesis
    by (auto simp: rt_local_settled_def stuck_fail stuck_waitForIceGathering stuck_set_local
        split: option.splits rt_cont.splits)
qed

lemma stuck_fetch_settled: "rt_stuck c w \<Longrightarrow> rt_stuck c (rt_fetch_settled c' outcome w)"
proof (cases "c' = c")
  case True
  assume "rt_stuck c w"
  with True show ?thesis by (auto simp: rt_stuck_def rt_fetch_settled_def)
next
  case False
  assume "rt_stuck c w"
  with False show ?thesis
    by (auto simp: rt_fetch_settled_def stuck_fail stuck_frame
        split: option.splits rt_cont.splits sum.splits)
qed

lemma stuck_json_settled: "rt_stuck c w \<Longrightarrow> rt_stuck c (rt_json_settled c' w)"
proof (cases "c' = c")
  case True
  assume "rt_stuck c w"
  with True show ?thesis by (auto simp: rt_stuck_def rt_json_settled_def)
next
  case False
  assume "rt_stuck c w"
  with False show ?thesis
    by (auto simp: rt_json_settled_def stuck_fail stuck_frame
        split: option.splits rt_cont.splits sum.splits)
qed

lemma stuck_remote_settled: "rt_stuck c w \<Longrightarrow> rt_stuck c (rt_remote_settled c' outcome w)"
proof (cases "c' = c")
  case True
  assume "rt_stuck c w"
  with True show ?thesis by (auto simp: rt_stuck_def rt_remote_settled_def)
next
  case False
  assume "rt_stuck c w"
  with False show ?thesis
    by (auto simp: rt_remote_settled_def stuck_fail stuck_frame
        split: option.splits rt_cont.splits sum.splits)
qed

lemma stuck_upd_conn:
  "rt_stuck c w \<Longrightarrow> conns w h = Some cn \<Longrightarrow> gatherListeners cn' = gatherListeners cn \<Longrightarrow>
   rt_stuck c (w\<lparr>conns := (conns w)(h \<mapsto> cn')\<rparr>)"
  by (auto simp: rt_stuck_def)

lemma stuck_fold_checkState:
  "rt_stuck c w \<Longrightarrow> c \<notin> set cs \<Longrightarrow> rt_stuck c (fold rt_checkState cs w)"
  by (induction cs arbitrary: w) (auto simp: stuck_checkState)

lemma stuck_gathering_change: "rt_stuck c w \<Longrightarrow> rt_stuck c (rt_gathering_change h st w)"
proof (cases "conns w h")
  case None
  assume "rt_stuck c w"
  with None show ?thesis by (simp add: rt_gathering_change_def)
next
  case (Some cn)
  assume s: "rt_stuck c w"
  with Some have n: "c \<notin> set (gatherListeners cn)" by (auto simp: rt_stuck_def)
  have "rt_stuck c (w\<lparr>conns := (conns w)(h \<mapsto> cn\<lparr>iceGatheringState := st\<rparr>)\<rparr>)"
    using s Some by (rule stuck_upd_conn) simp
  from stuck_fold_checkState [OF this n] Some show ?thesis
    by (simp add: rt_gathering_change_def)
qed

lemma stuck_startStatsMonitoring: "rt_stuck c w \<Longrightarrow> rt_stuck c (rt_startStatsMonitoring w)"
  by (auto simp: rt_stuck_def rt_startStatsMonitoring_def split: option.splits)

lemma stuck_oniceconnectionstatechange:
  "rt_stuck c w \<Longrightarrow> rt_stuck c (rt_oniceconnectionstatechange w)"
  by (auto simp: rt_oniceconnectionstatechange_def stuck_startStatsMonitoring
      split: option.splits)
     (auto simp: rt_stuck_def rt_startStatsMonitoring_def split: option.splits)

lemma stuck_connection_change: "rt_stuck c w \<Longrightarrow> rt_stuck c (rt_connection_change h st w)"
  by (auto simp: rt_connection_change_def stuck_oniceconnectionstatechange stuck_upd_conn
      split: option.splits)

lemma stuck_candidate: "rt_stuck c w \<Longrightarrow> rt_stuck c (rt_candidate h sdp w)"
  by (auto simp: rt_candidate_def stuck_upd_conn split: option.splits)

lemma stuck_track: "rt_stuck c w \<Longrightarrow> rt_stuck c (rt_track h s w)"
  by (auto simp: rt_track_def stuck_frame split: option.splits)

lemma stuck_fire: "rt_stuck c w \<Longrightarrow> rt_stuck c (rt_fire t w)"
proof (cases "find (\<lambda>(i, due, c). i = t) (timeouts w)")
  case None
  assume "rt_stuck c w"
  with None show ?thesis by (simp add: rt_fire_def)
next
  case (Some x)
  assume s: "rt_stuck c w"
  obtain i due c' where x: "x = (i, due, c')" by (cases x)
  from Some x have "(i, due, c') \<in> set (timeouts w)"
    by (auto simp: find_Some_iff in_set_conv_nth)
  with s have ne: "c' \<noteq> c" by (force simp: rt_stuck_def)
  have "rt_stuck c (w\<lparr>timeouts := filter (\<lambda>(i, due, c). i \<noteq> t) (timeouts w)\<rparr>)"
    using s by (rule stuck_frame(2))
  from stuck_ice_timeout [OF this ne] s Some x show ?thesis
    by (simp add: rt_fire_def)
qed

lemma stuck_tick: "rt_stuck c w \<Longrightarrow> rt_stuck c (rt_tick w)"
  by (auto simp: rt_tick_def stuck_frame split: option.splits)

lemma stuck_report: "rt_stuck c w \<Longrightarrow> rt_stuck c (rt_report r w)"
  by (auto simp: rt_report_def rt_stuck_def split: option.splits)

lemma stuck_fold_report: "rt_stuck c w \<Longrightarrow> rt_stuck c (fold rt_report rs w)"
  by (induction rs arbitrary: w) (simp_all add: stuck_report)

lemma stuck_stats_settled: "rt_stuck c w \<Longrightarrow> rt_stuck c (rt_stats_settled rs w)"
  by (simp add: rt_stats_settled_def stuck_fold_report stuck_frame)

lemma stuck_step: "rt_stuck c w \<Longrightarrow> rt_stuck c (rt_step ev w)"
  by (cases ev)
     (simp_all add: stuck_play stuck_stop stuck_offer_settled stuck_local_settled
        stuck_fetch_settled stuck_json_settled stuck_remote_settled stuck_gathering_change
        stuck_connection_change stuck_candidate stuck_track stuck_frame stuck_fire
        stuck_tick stuck_stats_settled)

lemma stuck_run: "rt_stuck c w \<Longrightarrow> rt_stuck c (rt_run evs w)"
  unfolding rt_run_def by (induction evs arbitrary: w) (simp_all add: stuck_step)

lemma rt_stopped_waiting_stuck: "rt_stuck 0 rt_stopped_waiting"
  unfolding rt_stuck_def rt_stopped_waiting_state by simp

text \<open>
  Claim C3 says that the wait ends at the 5000 ms deadline at the latest. The timeout of
  lines 246-252 is there for that ("in case gathering takes too long") and misses one
  case: it reads \<open>this.peerConnection.iceGatheringState\<close> without the test for \<open>null\<close>
  that the stats callback has (line 264). \<open>play\<close>, then \<open>stop\<close> before gathering
  completes: \<open>stop\<close> sets \<open>this.peerConnection\<close> to \<open>null\<close>; at 5000 ms the timeout
  callback throws on the read and never calls \<open>resolve\<close>; the closed connection
  dispatches no event. The timeout has run, no request has been sent, and whatever
  happens afterwards that \<open>play\<close> call stays suspended in the wait, its promise
  unsettled.
\<close>

theorem ice_wait_hangs_after_stop:
  "calls rt_waiting 0 = Some (AwaitIceGathering ''http://zlm/rtc'') \<and>
   timeouts rt_waiting = [(2, 5000, 0)] \<and> now rt_waiting = 0 \<and>
   now rt_stopped_waiting = 5000 \<and> timeouts rt_stopped_waiting = [] \<and>
   requests rt_stopped_waiting = [] \<and>
   calls rt_stopped_waiting 0 = Some (AwaitIceGathering ''http://zlm/rtc'') \<and>
   (\<forall>evs. (\<exists>url. calls (rt_run evs rt_stopped_waiting) 0 = Some (AwaitIceGathering url)) \<and>
          results (rt_run evs rt_stopped_waiting) 0 = None)"
proof -
  have "(\<exists>url. calls (rt_run evs rt_stopped_waiting) 0 = Some (AwaitIceGathering url)) \<and>
        results (rt_run evs rt_stopped_waiting) 0 = None" for evs
    using stuck_run [OF rt_stopped_waiting_stuck, of evs] unfolding rt_stuck_def by blast
  then show ?thesis
    using rt_waiting_state(1,2,4) rt_stopped_waiting_state(1,3,4,5) by blast
qed

end
